theory Spec2Isabelle
  imports Main
begin

section \<open>Package state: statuses, events and state records (state/state.go)\<close>

text \<open>
  Go's \<^verbatim>\<open>WorkflowStatus\<close> and \<^verbatim>\<open>EventType\<close> are string types with named constants; they are
  strings here too, and the constants abbreviate the same literals.  A \<^verbatim>\<open>time.Time\<close> is an
  instant counted in nanoseconds, a \<^verbatim>\<open>time.Duration\<close> a number of nanoseconds.  Values of
  type \<^verbatim>\<open>interface{}\<close> (inputs, outputs, event data) are opaque to the engine and are
  represented by a small value type.
\<close>

type_synonym WorkflowStatus = string
type_synonym EventType = string
type_synonym time = int
type_synonym duration = int

datatype val = VNil | VStr string | VInt int

abbreviation StatusPending :: WorkflowStatus where "StatusPending \<equiv> ''pending''"
abbreviation StatusRunning :: WorkflowStatus where "StatusRunning \<equiv> ''running''"
abbreviation StatusCompleted :: WorkflowStatus where "StatusCompleted \<equiv> ''completed''"
abbreviation StatusFailed :: WorkflowStatus where "StatusFailed \<equiv> ''failed''"
abbreviation StatusCanceled :: WorkflowStatus where "StatusCanceled \<equiv> ''canceled''"

abbreviation EventWorkflowStarted :: EventType where "EventWorkflowStarted \<equiv> ''workflow_started''"
abbreviation EventWorkflowCompleted :: EventType where "EventWorkflowCompleted \<equiv> ''workflow_completed''"
abbreviation EventWorkflowFailed :: EventType where "EventWorkflowFailed \<equiv> ''workflow_failed''"
abbreviation EventWorkflowCanceled :: EventType where "EventWorkflowCanceled \<equiv> ''workflow_canceled''"
abbreviation EventActivityScheduled :: EventType where "EventActivityScheduled \<equiv> ''activity_scheduled''"
abbreviation EventActivityStarted :: EventType where "EventActivityStarted \<equiv> ''activity_started''"
abbreviation EventActivityCompleted :: EventType where "EventActivityCompleted \<equiv> ''activity_completed''"
abbreviation EventActivityFailed :: EventType where "EventActivityFailed \<equiv> ''activity_failed''"
abbreviation EventActivityRetrying :: EventType where "EventActivityRetrying \<equiv> ''activity_retrying''"
abbreviation EventTimerScheduled :: EventType where "EventTimerScheduled \<equiv> ''timer_scheduled''"
abbreviation EventTimerFired :: EventType where "EventTimerFired \<equiv> ''timer_fired''"
abbreviation EventSignalReceived :: EventType where "EventSignalReceived \<equiv> ''signal_received''"

record WorkflowState =
  wf_WorkflowID :: string
  wf_WorkflowName :: string
  wf_Status :: WorkflowStatus
  wf_Input :: val
  wf_Output :: val
  wf_Error :: string
  wf_StartTime :: time
  wf_EndTime :: "time option"
  wf_LastEventSeq :: int
  wf_TaskQueue :: string

record ActivityState =
  act_ActivityID :: string
  act_ActivityName :: string
  act_WorkflowID :: string
  act_Status :: WorkflowStatus
  act_Input :: val
  act_Output :: val
  act_Error :: string
  act_StartTime :: time
  act_EndTime :: "time option"
  act_Attempt :: int

text \<open>
  An event's \<^verbatim>\<open>ID\<close> is the clock reading formatted as a string by \<^verbatim>\<open>generateID\<close>; the model keeps
  the reading itself.  \<^verbatim>\<open>SequenceNum\<close> is an \<^verbatim>\<open>int64\<close> computed as \<^verbatim>\<open>int64(len(events)) + 1\<close>; a
  slice length is below \<open>2^63 - 1\<close>, so the addition never wraps and the model uses \<open>int\<close>.
\<close>

record Event =
  ev_ID :: time
  ev_WorkflowID :: string
  ev_Type :: EventType
  ev_Timestamp :: time
  ev_SequenceNum :: int
  ev_Data :: "(string \<times> val) list"

record TimerRecord =
  tm_WorkflowID :: string
  tm_TimerID :: string
  tm_FireAt :: time
  tm_Fired :: bool

definition IsTerminal :: "WorkflowStatus \<Rightarrow> bool" where
  "IsTerminal s = (s = StatusCompleted \<or> s = StatusFailed \<or> s = StatusCanceled)"

definition IsComplete :: "WorkflowState \<Rightarrow> bool" where
  "IsComplete w = IsTerminal (wf_Status w)"

text \<open>\<^verbatim>\<open>NewEvent\<close> reads the clock (\<open>now\<close>) and leaves \<^verbatim>\<open>SequenceNum\<close> at its zero value.\<close>

definition NewEvent :: "time \<Rightarrow> string \<Rightarrow> EventType \<Rightarrow> (string \<times> val) list \<Rightarrow> Event" where
  "NewEvent now workflowID eventType data =
     \<lparr>ev_ID = now, ev_WorkflowID = workflowID, ev_Type = eventType,
      ev_Timestamp = now, ev_SequenceNum = 0, ev_Data = data\<rparr>"

section \<open>The in-memory store (state.InMemoryStore)\<close>

text \<open>
  Every method of the store runs under the store's mutex, so a method is one atomic step
  on the record of the five maps.  The store's methods never return an error except for
  the lookups of a missing key.
\<close>

record InMemoryStore =
  workflows :: "string \<rightharpoonup> WorkflowState"
  events :: "string \<rightharpoonup> Event list"
  activities :: "string \<rightharpoonup> ActivityState"
  idemKeys :: "string \<rightharpoonup> string"
  timers :: "string \<rightharpoonup> (string \<rightharpoonup> TimerRecord)"

definition NewInMemoryStore :: InMemoryStore where
  "NewInMemoryStore =
     \<lparr>workflows = Map.empty, events = Map.empty, activities = Map.empty,
      idemKeys = Map.empty, timers = Map.empty\<rparr>"

definition SaveWorkflowState :: "InMemoryStore \<Rightarrow> WorkflowState \<Rightarrow> InMemoryStore" where
  "SaveWorkflowState s st = s\<lparr>workflows := (workflows s)(wf_WorkflowID st \<mapsto> st)\<rparr>"

definition GetWorkflowState :: "InMemoryStore \<Rightarrow> string \<Rightarrow> string + WorkflowState" where
  "GetWorkflowState s workflowID =
     (case workflows s workflowID of
        None \<Rightarrow> Inl (''workflow '' @ workflowID @ '' not found'')
      | Some st \<Rightarrow> Inr st)"

text \<open>
  \<^verbatim>\<open>s.events[id]\<close> of a missing key is the nil slice, of length zero.  \<^verbatim>\<open>AppendEvent\<close> writes
  the sequence number into the caller's event too, so the model returns the store and the
  event as stored.
\<close>

definition GetEvents :: "InMemoryStore \<Rightarrow> string \<Rightarrow> Event list" where
  "GetEvents s workflowID = (case events s workflowID of None \<Rightarrow> [] | Some es \<Rightarrow> es)"

definition AppendEvent :: "InMemoryStore \<Rightarrow> Event \<Rightarrow> InMemoryStore \<times> Event" where
  "AppendEvent s event =
     (let evs = (case events s (ev_WorkflowID event) of None \<Rightarrow> [] | Some es \<Rightarrow> es);
          eventCopy = event\<lparr>ev_SequenceNum := int (length evs) + 1\<rparr>
      in (s\<lparr>events := (events s)(ev_WorkflowID event \<mapsto> evs @ [eventCopy])\<rparr>, eventCopy))"

definition GetEventsSince :: "InMemoryStore \<Rightarrow> string \<Rightarrow> int \<Rightarrow> Event list" where
  "GetEventsSince s workflowID since =
     (case events s workflowID of
        None \<Rightarrow> []
      | Some es \<Rightarrow> filter (\<lambda>event. ev_SequenceNum event > since) es)"

definition SaveActivityState :: "InMemoryStore \<Rightarrow> ActivityState \<Rightarrow> InMemoryStore" where
  "SaveActivityState s st = s\<lparr>activities := (activities s)(act_ActivityID st \<mapsto> st)\<rparr>"

definition GetActivityState :: "InMemoryStore \<Rightarrow> string \<Rightarrow> string + ActivityState" where
  "GetActivityState s activityID =
     (case activities s activityID of
        None \<Rightarrow> Inl (''activity '' @ activityID @ '' not found'')
      | Some st \<Rightarrow> Inr st)"

definition DeleteWorkflow :: "InMemoryStore \<Rightarrow> string \<Rightarrow> InMemoryStore" where
  "DeleteWorkflow s workflowID =
     s\<lparr>workflows := (workflows s)(workflowID := None),
       events := (events s)(workflowID := None),
       activities := (\<lambda>activityID.
          case activities s activityID of
            None \<Rightarrow> None
          | Some a \<Rightarrow> if act_WorkflowID a = workflowID then None else Some a),
       timers := (timers s)(workflowID := None)\<rparr>"

definition MapIdempotencyKeyToWorkflow ::
    "InMemoryStore \<Rightarrow> string \<Rightarrow> string \<Rightarrow> InMemoryStore \<times> bool \<times> string" where
  "MapIdempotencyKeyToWorkflow s key workflowID =
     (case idemKeys s key of
        Some existing \<Rightarrow> (s, False, existing)
      | None \<Rightarrow> (s\<lparr>idemKeys := (idemKeys s)(key \<mapsto> workflowID)\<rparr>, True, ''''))"

definition GetWorkflowIDByIdempotencyKey :: "InMemoryStore \<Rightarrow> string \<Rightarrow> string \<times> bool" where
  "GetWorkflowIDByIdempotencyKey s key =
     (case idemKeys s key of None \<Rightarrow> ('''', False) | Some workflowID \<Rightarrow> (workflowID, True))"

definition ScheduleTimer :: "InMemoryStore \<Rightarrow> string \<Rightarrow> string \<Rightarrow> time \<Rightarrow> InMemoryStore" where
  "ScheduleTimer s workflowID timerID fireAt =
     (let wfTimers = (case timers s workflowID of None \<Rightarrow> Map.empty | Some m \<Rightarrow> m)
      in case wfTimers timerID of
           Some rec \<Rightarrow> s\<lparr>timers := (timers s)(workflowID \<mapsto> wfTimers)\<rparr>
         | None \<Rightarrow>
             s\<lparr>timers := (timers s)(workflowID \<mapsto> wfTimers(timerID \<mapsto>
                  \<lparr>tm_WorkflowID = workflowID, tm_TimerID = timerID,
                   tm_FireAt = fireAt, tm_Fired = False\<rparr>))\<rparr>)"

definition MarkTimerFired ::
    "InMemoryStore \<Rightarrow> string \<Rightarrow> string \<Rightarrow> InMemoryStore \<times> (string + bool)" where
  "MarkTimerFired s workflowID timerID =
     (case timers s workflowID of
        None \<Rightarrow> (s, Inl (''no timers for workflow '' @ workflowID))
      | Some wfTimers \<Rightarrow>
          (case wfTimers timerID of
             None \<Rightarrow> (s, Inl (''timer '' @ timerID @ '' not found''))
           | Some rec \<Rightarrow>
               if tm_Fired rec then (s, Inr False)
               else (s\<lparr>timers := (timers s)(workflowID \<mapsto>
                        wfTimers(timerID \<mapsto> rec\<lparr>tm_Fired := True\<rparr>))\<rparr>, Inr True)))"

text \<open>
  The calls that change the store, as data, so that a history of the store is a list of
  calls run from the empty store in the order the mutex serialises them.
\<close>

datatype store_op =
    OpSaveWorkflowState WorkflowState
  | OpAppendEvent Event
  | OpSaveActivityState ActivityState
  | OpDeleteWorkflow string
  | OpMapIdempotencyKey string string
  | OpScheduleTimer string string time
  | OpMarkTimerFired string string

fun apply_op :: "InMemoryStore \<Rightarrow> store_op \<Rightarrow> InMemoryStore" where
  "apply_op s (OpSaveWorkflowState st) = SaveWorkflowState s st"
| "apply_op s (OpAppendEvent e) = fst (AppendEvent s e)"
| "apply_op s (OpSaveActivityState st) = SaveActivityState s st"
| "apply_op s (OpDeleteWorkflow workflowID) = DeleteWorkflow s workflowID"
| "apply_op s (OpMapIdempotencyKey key workflowID) = fst (MapIdempotencyKeyToWorkflow s key workflowID)"
| "apply_op s (OpScheduleTimer workflowID timerID fireAt) = ScheduleTimer s workflowID timerID fireAt"
| "apply_op s (OpMarkTimerFired workflowID timerID) = fst (MarkTimerFired s workflowID timerID)"

definition run_ops :: "InMemoryStore \<Rightarrow> store_op list \<Rightarrow> InMemoryStore" where
  "run_ops s ops = foldl apply_op s ops"

section \<open>Package queue: tasks and the in-memory queue (queue/queue.go, queue.InMemoryQueue)\<close>

type_synonym TaskType = string

abbreviation TaskTypeActivity :: TaskType where "TaskTypeActivity \<equiv> ''activity''"
abbreviation TaskTypeWorkflow :: TaskType where "TaskTypeWorkflow \<equiv> ''workflow''"

abbreviation millisecond :: duration where "millisecond \<equiv> 1000000"
abbreviation second :: duration where "second \<equiv> 1000000000"

record Task =
  task_ID :: string
  task_Type :: TaskType
  task_WorkflowID :: string
  task_ActivityID :: string
  task_ActivityName :: string
  task_Input :: val
  task_Metadata :: "(string \<times> val) list"
  task_EnqueueTime :: time
  task_Attempts :: int

text \<open>\<^verbatim>\<open>TaskResult.Duration\<close> is wall-clock bookkeeping of \<^verbatim>\<open>executeTask\<close> and is left out.\<close>

record TaskResult =
  res_TaskID :: string
  res_WorkflowID :: string
  res_ActivityID :: string
  res_Success :: bool
  res_Output :: val
  res_Error :: string

record pendingRecord =
  pr_task :: Task
  pr_deadline :: time

text \<open>The instrumentation hooks of \<^verbatim>\<open>Options\<close> only observe calls and are left out.\<close>

record Options =
  VisibilityTimeout :: duration
  EnableDLQ :: bool

text \<open>
  A queue is a buffered channel of capacity 100, here the list of the tasks it holds, oldest
  first.  Tasks are held by value, so the increment of \<^verbatim>\<open>Attempts\<close> shows in the task returned
  and in its inflight record.  A receive from a channel closed by \<^verbatim>\<open>Close\<close> while the caller
  waits (the nil task with a nil error) needs a second goroutine and is not modelled.
\<close>

record InMemoryQueue =
  queues :: "string \<rightharpoonup> Task list"
  pending :: "string \<rightharpoonup> (string \<rightharpoonup> pendingRecord)"
  dlq :: "string \<rightharpoonup> Task list"
  closed :: bool
  opts :: Options

text \<open>
  The errors of the queue.  \<open>ContextDone err\<close> is the context's error \<^verbatim>\<open>ctx.Err()\<close>; \<open>WouldBlock\<close>
  is no error of the code: it stands for a call whose \<^verbatim>\<open>select\<close> has no ready case, so that the
  call has not returned.
\<close>

datatype queue_error =
  QueueClosed | DequeueTimeout | ContextDone string | NotInPending string | WouldBlock

text \<open>
  \<^verbatim>\<open>Enqueue\<close> and \<^verbatim>\<open>DequeueWithTimeout\<close> end in a \<^verbatim>\<open>select\<close> over the channel operation, the timer
  (dequeue with a positive timeout only) and \<^verbatim>\<open>ctx.Done()\<close>.  What the call meets there is an
  argument of the model: the error of the context if the context is done, whether the
  timer has fired, and a number that settles which case is taken when several are ready
  (Go takes any of them).  \<open>selectReady\<close> lists the ready cases in the order of the source
  and takes the one the number points to; with no ready case the \<^verbatim>\<open>select\<close> waits.
\<close>

record select_env =
  env_ctx :: "string option"
  env_timer :: bool
  env_pick :: nat

datatype select_branch = SelChannel | SelTimer | SelDone

definition selectReady :: "bool \<Rightarrow> bool \<Rightarrow> bool \<Rightarrow> nat \<Rightarrow> select_branch option" where
  "selectReady channelReady timerReady doneReady pick =
     (let ready = (if channelReady then [SelChannel] else [])
                  @ (if timerReady then [SelTimer] else [])
                  @ (if doneReady then [SelDone] else [])
      in if ready = [] then None else Some (ready ! (pick mod length ready)))"

text \<open>A live context and a timer that has not fired.\<close>

definition liveEnv :: select_env where
  "liveEnv = \<lparr>env_ctx = None, env_timer = False, env_pick = 0\<rparr>"

text \<open>
  Go's \<^verbatim>\<open>int\<close> is 64 bits wide here and its arithmetic wraps around: \<open>wrapInt\<close> brings a result
  back into the range from \<open>- 2^63\<close> to \<open>2^63 - 1\<close>.
\<close>

definition wrapInt :: "int \<Rightarrow> int" where
  "wrapInt x = (x + 2 ^ 63) mod 2 ^ 64 - 2 ^ 63"

text \<open>The error of a done context (the empty text stands in where the context is live).\<close>

definition ctxError :: "select_env \<Rightarrow> string" where
  "ctxError env = (case env_ctx env of Some err \<Rightarrow> err | None \<Rightarrow> [])"

definition NewInMemoryQueueWithOptions :: "Options \<Rightarrow> InMemoryQueue" where
  "NewInMemoryQueueWithOptions os =
     \<lparr>queues = Map.empty, pending = Map.empty, dlq = Map.empty, closed = False, opts = os\<rparr>"

definition NewInMemoryQueue :: InMemoryQueue where
  "NewInMemoryQueue =
     NewInMemoryQueueWithOptions \<lparr>VisibilityTimeout = 30 * second, EnableDLQ = False\<rparr>"

definition getOrCreateQueue :: "InMemoryQueue \<Rightarrow> string \<Rightarrow> InMemoryQueue \<times> Task list option" where
  "getOrCreateQueue q queueName =
     (if closed q then (q, None)
      else case queues q queueName of
             Some ch \<Rightarrow> (q, Some ch)
           | None \<Rightarrow>
               (q\<lparr>queues := (queues q)(queueName \<mapsto> []),
                  pending := (pending q)(queueName \<mapsto> Map.empty),
                  dlq := (case dlq q queueName of
                            Some d \<Rightarrow> dlq q
                          | None \<Rightarrow> (dlq q)(queueName \<mapsto> []))\<rparr>,
                Some []))"

definition Enqueue ::
    "InMemoryQueue \<Rightarrow> string \<Rightarrow> select_env \<Rightarrow> Task \<Rightarrow> InMemoryQueue \<times> queue_error option" where
  "Enqueue q queueName env task =
     (case getOrCreateQueue q queueName of
        (q1, None) \<Rightarrow> (q1, Some QueueClosed)
      | (q1, Some ch) \<Rightarrow>
          (case selectReady (length ch < 100) False (env_ctx env \<noteq> None) (env_pick env) of
             Some SelChannel \<Rightarrow> (q1\<lparr>queues := (queues q1)(queueName \<mapsto> ch @ [task])\<rparr>, None)
           | Some SelDone \<Rightarrow> (q1, Some (ContextDone (ctxError env)))
           | Some SelTimer \<Rightarrow> (q1, Some WouldBlock)
           | None \<Rightarrow> (q1, Some WouldBlock)))"

definition addPending :: "InMemoryQueue \<Rightarrow> string \<Rightarrow> Task \<Rightarrow> time \<Rightarrow> InMemoryQueue" where
  "addPending q queueName task deadline =
     (case pending q queueName of
        Some p \<Rightarrow>
          q\<lparr>pending := (pending q)(queueName \<mapsto>
               p(task_ID task \<mapsto> \<lparr>pr_task = task, pr_deadline = deadline\<rparr>))\<rparr>
      | None \<Rightarrow> q)"

definition removePending ::
    "InMemoryQueue \<Rightarrow> string \<Rightarrow> string \<Rightarrow> InMemoryQueue \<times> pendingRecord option" where
  "removePending q queueName taskID =
     (case pending q queueName of
        Some p \<Rightarrow> (q\<lparr>pending := (pending q)(queueName \<mapsto> p(taskID := None))\<rparr>, p taskID)
      | None \<Rightarrow> (q, None))"

text \<open>
  \<^verbatim>\<open>DequeueWithTimeout\<close>: \<open>now\<close> is the reading of \<^verbatim>\<open>time.Now()\<close> taken when a task is received.
  The receive is ready when the channel holds a task, the timer case only when the timeout
  is positive (there is no timer otherwise) and the timer has fired, and the context case
  when the context is done.  On a timeout Go returns the nil task together with the error
  \<^verbatim>\<open>dequeue timeout\<close>, on a done context the nil task with the context's error.
  \<^verbatim>\<open>task.Attempts++\<close> is an increment of a Go \<^verbatim>\<open>int\<close>.
\<close>

definition DequeueWithTimeout ::
    "InMemoryQueue \<Rightarrow> string \<Rightarrow> duration \<Rightarrow> select_env \<Rightarrow> time
       \<Rightarrow> InMemoryQueue \<times> (queue_error + Task)" where
  "DequeueWithTimeout q queueName timeout env now =
     (case getOrCreateQueue q queueName of
        (q1, None) \<Rightarrow> (q1, Inl QueueClosed)
      | (q1, Some ch) \<Rightarrow>
          (case selectReady (ch \<noteq> []) (timeout > 0 \<and> env_timer env) (env_ctx env \<noteq> None)
                  (env_pick env) of
             Some SelChannel \<Rightarrow>
               (case ch of
                  task0 # rest \<Rightarrow>
                    (let task = task0\<lparr>task_Attempts := wrapInt (task_Attempts task0 + 1)\<rparr>;
                         vis = (if VisibilityTimeout (opts q1) \<le> 0 then 30 * second
                                else VisibilityTimeout (opts q1))
                     in (addPending (q1\<lparr>queues := (queues q1)(queueName \<mapsto> rest)\<rparr>)
                           queueName task (now + vis),
                         Inr task))
                | [] \<Rightarrow> (q1, Inl WouldBlock))
           | Some SelTimer \<Rightarrow> (q1, Inl DequeueTimeout)
           | Some SelDone \<Rightarrow> (q1, Inl (ContextDone (ctxError env)))
           | None \<Rightarrow> (q1, Inl WouldBlock)))"

definition Dequeue ::
    "InMemoryQueue \<Rightarrow> string \<Rightarrow> select_env \<Rightarrow> time \<Rightarrow> InMemoryQueue \<times> (queue_error + Task)" where
  "Dequeue q queueName env now = DequeueWithTimeout q queueName 0 env now"

definition Ack :: "InMemoryQueue \<Rightarrow> string \<Rightarrow> string \<Rightarrow> InMemoryQueue \<times> queue_error option" where
  "Ack q queueName taskID =
     (case removePending q queueName taskID of
        (q1, None) \<Rightarrow> (q1, Some (NotInPending taskID))
      | (q1, Some rec) \<Rightarrow> (q1, None))"

definition Nack ::
    "InMemoryQueue \<Rightarrow> string \<Rightarrow> string \<Rightarrow> bool \<Rightarrow> select_env
       \<Rightarrow> InMemoryQueue \<times> queue_error option" where
  "Nack q queueName taskID requeue env =
     (case removePending q queueName taskID of
        (q1, None) \<Rightarrow> (q1, Some (NotInPending taskID))
      | (q1, Some rec) \<Rightarrow>
          if requeue then Enqueue q1 queueName env (pr_task rec)
          else if EnableDLQ (opts q1)
          then (q1\<lparr>dlq := (dlq q1)(queueName \<mapsto>
                     (case dlq q1 queueName of None \<Rightarrow> [] | Some d \<Rightarrow> d) @ [pr_task rec])\<rparr>,
                None)
          else (q1, None))"

definition Len :: "InMemoryQueue \<Rightarrow> string \<Rightarrow> nat" where
  "Len q queueName = (case queues q queueName of None \<Rightarrow> 0 | Some ch \<Rightarrow> length ch)"

definition Close :: "InMemoryQueue \<Rightarrow> InMemoryQueue" where
  "Close q =
     (if closed q then q
      else q\<lparr>queues := Map.empty, pending := Map.empty, dlq := Map.empty, closed := True\<rparr>)"

text \<open>
  \<^verbatim>\<open>scanOnce\<close> ranges over the inflight maps in an order Go leaves unspecified.  The model
  visits the records in the order of a list of (queue name, task id) pairs given by the
  caller; an entry deleted before its visit is skipped, as in Go.  A queue name without a
  channel gives the nil channel, on which the send is never ready, so the \<^verbatim>\<open>default\<close> branch
  runs as it does for a full channel.
\<close>

definition scanVisit :: "time \<Rightarrow> InMemoryQueue \<Rightarrow> string \<times> string \<Rightarrow> InMemoryQueue" where
  "scanVisit now q key =
     (case key of (queueName, taskID) \<Rightarrow>
        (case pending q queueName of
           None \<Rightarrow> q
         | Some inflight \<Rightarrow>
             (case inflight taskID of
                None \<Rightarrow> q
              | Some rec \<Rightarrow>
                  if now > pr_deadline rec
                  then (case queues q queueName of
                          Some ch \<Rightarrow>
                            if length ch < 100
                            then q\<lparr>queues := (queues q)(queueName \<mapsto> ch @ [pr_task rec]),
                                   pending := (pending q)(queueName \<mapsto> inflight(taskID := None))\<rparr>
                            else q\<lparr>pending := (pending q)(queueName \<mapsto>
                                     inflight(taskID \<mapsto> rec\<lparr>pr_deadline := now + 200 * millisecond\<rparr>))\<rparr>
                        | None \<Rightarrow>
                            q\<lparr>pending := (pending q)(queueName \<mapsto>
                                 inflight(taskID \<mapsto> rec\<lparr>pr_deadline := now + 200 * millisecond\<rparr>))\<rparr>)
                  else q)))"

definition scanOnce :: "time \<Rightarrow> (string \<times> string) list \<Rightarrow> InMemoryQueue \<Rightarrow> InMemoryQueue" where
  "scanOnce now order q = foldl (scanVisit now) q order"

section \<open>Package activity: retry policy and registry (activity/activity.go, activity.Registry)\<close>

text \<open>
  \<^verbatim>\<open>BackoffCoefficient\<close> is a \<^verbatim>\<open>float64\<close> read only by \<^verbatim>\<open>GetBackoffDuration\<close>, which nothing in the
  worker calls; it is left out of the record.  A \<^verbatim>\<open>Registration\<close> pairs the executor with its
  \<^verbatim>\<open>Info\<close>; the executor is opaque code, so the registry of the model maps a name to the
  \<^verbatim>\<open>Info\<close>, and what an execution did is an argument of \<^verbatim>\<open>executeActivity\<close>.
\<close>

record RetryPolicy =
  MaxAttempts :: int
  InitialInterval :: duration
  MaxInterval :: duration
  NonRetryableErrors :: "string list"

record Info =
  info_Name :: string
  info_Description :: string
  info_Timeout :: duration
  info_RetryPolicy :: "RetryPolicy option"

type_synonym Registry = "string \<rightharpoonup> Info"

definition DefaultRetryPolicy :: RetryPolicy where
  "DefaultRetryPolicy =
     \<lparr>MaxAttempts = 3, InitialInterval = second, MaxInterval = 60 * second,
      NonRetryableErrors = []\<rparr>"

definition NewRegistry :: Registry where
  "NewRegistry = Map.empty"

definition Register :: "Registry \<Rightarrow> string \<Rightarrow> Info \<Rightarrow> string + Registry" where
  "Register r name info =
     (if name = '''' then Inl ''activity name cannot be empty''
      else case r name of
             Some existing \<Rightarrow> Inl (''activity '' @ name @ '' already registered'')
           | None \<Rightarrow>
               Inr (r(name \<mapsto>
                 info\<lparr>info_Name := name,
                      info_Timeout := (if info_Timeout info = 0 then 30 * second
                                       else info_Timeout info),
                      info_RetryPolicy := (case info_RetryPolicy info of
                                             None \<Rightarrow> Some DefaultRetryPolicy
                                           | Some p \<Rightarrow> Some p)\<rparr>)))"

definition Registry_Get :: "Registry \<Rightarrow> string \<Rightarrow> string + Info" where
  "Registry_Get r name =
     (case r name of
        None \<Rightarrow> Inl (''activity '' @ name @ '' not found'')
      | Some reg \<Rightarrow> Inr reg)"

section \<open>Package worker: executing a task (worker.Worker)\<close>

text \<open>
  What one call of \<^verbatim>\<open>reg.Activity.Execute\<close> did: the events it sent through the event emitter
  of its context, in order, and the error (\<open>Inl\<close>, the error's text) or output (\<open>Inr\<close>) it
  returned.  The timeout of the activity and the watcher that cancels the context once the
  workflow is canceled act on the activity only through its context, so they are part of
  what the execution did.  Every clock reading of one call is the one instant \<open>now\<close>.
\<close>

type_synonym activity_run = "(EventType \<times> (string \<times> val) list) list \<times> (string + val)"

record Worker =
  w_id :: string
  w_queueName :: string
  w_activityRegistry :: Registry
  w_pollInterval :: duration
  w_maxConcurrent :: int

definition emitEvents ::
    "InMemoryStore \<Rightarrow> string \<Rightarrow> time \<Rightarrow> (EventType \<times> (string \<times> val) list) list \<Rightarrow> InMemoryStore" where
  "emitEvents s workflowID now emitted =
     foldl (\<lambda>s1 em. fst (AppendEvent s1 (NewEvent now workflowID (fst em) (snd em)))) s emitted"

definition newResult :: "Task \<Rightarrow> TaskResult" where
  "newResult task =
     \<lparr>res_TaskID = task_ID task, res_WorkflowID = task_WorkflowID task,
      res_ActivityID = task_ActivityID task, res_Success = False, res_Output = VNil,
      res_Error = ''''\<rparr>"

text \<open>The second half of \<^verbatim>\<open>executeActivity\<close>, from the call of \<^verbatim>\<open>Execute\<close> to the final save.\<close>

definition finishActivity ::
    "InMemoryStore \<Rightarrow> Task \<Rightarrow> time \<Rightarrow> activity_run \<Rightarrow> ActivityState \<Rightarrow> TaskResult
       \<Rightarrow> TaskResult \<times> InMemoryStore" where
  "finishActivity s task now run activityState result =
     (let s1 = emitEvents s (task_WorkflowID task) now (fst run);
          st1 = activityState\<lparr>act_EndTime := Some now\<rparr>
      in case snd run of
           Inl err \<Rightarrow>
             (let st2 = st1\<lparr>act_Status := StatusFailed, act_Error := err\<rparr>;
                  s2 = fst (AppendEvent s1
                         (NewEvent now (task_WorkflowID task) EventActivityFailed
                            [(''activity_id'', VStr (task_ActivityID task)),
                             (''error'', VStr err),
                             (''attempt'', VInt (task_Attempts task))]))
              in (result\<lparr>res_Error := err\<rparr>, SaveActivityState s2 st2))
         | Inr output \<Rightarrow>
             (let result1 = result\<lparr>res_Success := True, res_Output := output\<rparr>
              in if act_Status st1 \<noteq> StatusCompleted
                 then (let st2 = st1\<lparr>act_Status := StatusCompleted, act_Output := output\<rparr>;
                           s2 = fst (AppendEvent s1
                                  (NewEvent now (task_WorkflowID task) EventActivityCompleted
                                     [(''activity_id'', VStr (task_ActivityID task)),
                                      (''output'', output)]))
                       in (result1, SaveActivityState s2 st2))
                 else (result1, SaveActivityState s1 st1)))"

definition executeActivity ::
    "Worker \<Rightarrow> InMemoryStore \<Rightarrow> Task \<Rightarrow> time \<Rightarrow> activity_run \<Rightarrow> TaskResult \<times> InMemoryStore" where
  "executeActivity w s task now run =
     (let result = newResult task
      in case Registry_Get (w_activityRegistry w) (task_ActivityName task) of
           Inl err \<Rightarrow> (result\<lparr>res_Error := ''activity not found: '' @ err\<rparr>, s)
         | Inr reg \<Rightarrow>
             (case GetActivityState s (task_ActivityID task) of
                Inr existing \<Rightarrow>
                  if act_Status existing = StatusCompleted
                  then (result\<lparr>res_Success := True, res_Output := act_Output existing\<rparr>, s)
                  else finishActivity s task now run existing result
              | Inl getErr \<Rightarrow>
                  (let activityState =
                         \<lparr>act_ActivityID = task_ActivityID task,
                          act_ActivityName = task_ActivityName task,
                          act_WorkflowID = task_WorkflowID task,
                          act_Status = StatusRunning,
                          act_Input = task_Input task,
                          act_Output = VNil,
                          act_Error = '''',
                          act_StartTime = now,
                          act_EndTime = None,
                          act_Attempt = task_Attempts task\<rparr>;
                       s1 = SaveActivityState s activityState;
                       s2 = fst (AppendEvent s1
                              (NewEvent now (task_WorkflowID task) EventActivityStarted
                                 [(''activity_id'', VStr (task_ActivityID task)),
                                  (''activity_name'', VStr (task_ActivityName task))]))
                   in finishActivity s2 task now run activityState result)))"

definition executeTask ::
    "Worker \<Rightarrow> InMemoryStore \<Rightarrow> Task \<Rightarrow> time \<Rightarrow> activity_run \<Rightarrow> TaskResult \<times> InMemoryStore" where
  "executeTask w s task now run =
     (if task_Type task = TaskTypeActivity then executeActivity w s task now run
      else if task_Type task = TaskTypeWorkflow
      then ((newResult task)\<lparr>res_Error := ''workflow tasks not yet implemented''\<rparr>, s)
      else ((newResult task)\<lparr>res_Error := ''unknown task type: '' @ task_Type task\<rparr>, s))"

text \<open>
  What \<^verbatim>\<open>pollOnce\<close> did with the task it received: nothing was received, or the result of the
  execution together with the call it made on the queue (\<^verbatim>\<open>Ack\<close>, or \<^verbatim>\<open>Nack\<close> with its \<^verbatim>\<open>requeue\<close>
  argument) and the error that call returned, which \<^verbatim>\<open>pollOnce\<close> only logs.  \<open>deqEnv\<close> is what
  the \<^verbatim>\<open>select\<close> of the dequeue meets, \<open>nackEnv\<close> what the \<^verbatim>\<open>select\<close> of the enqueue inside \<^verbatim>\<open>Nack\<close>
  meets.
\<close>

datatype poll_outcome =
    PollNoTask queue_error
  | PollAck Task TaskResult "queue_error option"
  | PollNack Task TaskResult bool "queue_error option"

definition pollOnce ::
    "Worker \<Rightarrow> select_env \<Rightarrow> select_env \<Rightarrow> time \<Rightarrow> activity_run
       \<Rightarrow> InMemoryQueue \<times> InMemoryStore
       \<Rightarrow> (InMemoryQueue \<times> InMemoryStore) \<times> poll_outcome" where
  "pollOnce w deqEnv nackEnv now run qs =
     (case qs of (q, s) \<Rightarrow>
        (case DequeueWithTimeout q (w_queueName w) (w_pollInterval w) deqEnv now of
           (q1, Inl err) \<Rightarrow> ((q1, s), PollNoTask err)
         | (q1, Inr task) \<Rightarrow>
             (case executeTask w s task now run of
                (result, s1) \<Rightarrow>
                  if res_Success result
                  then (case Ack q1 (w_queueName w) (task_ID task) of
                          (q2, err) \<Rightarrow> ((q2, s1), PollAck task result err))
                  else (let requeue = (task_Attempts task < 3)
                        in case Nack q1 (w_queueName w) (task_ID task) requeue nackEnv of
                             (q2, err) \<Rightarrow> ((q2, s1), PollNack task result requeue err)))))"

section \<open>Package engine: starting, canceling and driving a workflow (engine/engine.go)\<close>

text \<open>
  A workflow \<^verbatim>\<open>Definition\<close> with the fields the engine reads; the workflow program itself is
  opaque code.  The engine of the model holds the store, the registry of definitions and
  the list of the workflow ids for which a driver goroutine has been launched
  (\<^verbatim>\<open>go e.executeWorkflow(...)\<close>).
\<close>

record Definition =
  def_Name :: string
  def_TaskQueue :: string
  def_ExecutionTimeout :: duration

record Engine =
  stateStore :: InMemoryStore
  workflowRegistry :: "string \<rightharpoonup> Definition"
  launched :: "string list"

definition workflowRegistry_Get :: "(string \<rightharpoonup> Definition) \<Rightarrow> string \<Rightarrow> string + Definition" where
  "workflowRegistry_Get r name =
     (case r name of
        None \<Rightarrow> Inl (''workflow '' @ name @ '' not found'')
      | Some d \<Rightarrow> Inr d)"

record StartWorkflowOptions =
  IdempotencyKey :: string

text \<open>
  \<^verbatim>\<open>StartWorkflowWithOptions\<close>.  \<open>workflowID\<close> is the id \<^verbatim>\<open>generateWorkflowID\<close> returns in this call
  (the clock's nanoseconds after \<^verbatim>\<open>wf-\<close>), \<open>now\<close> the clock reading.  The in-memory store returns
  no error from \<^verbatim>\<open>MapIdempotencyKeyToWorkflow\<close>, \<^verbatim>\<open>SaveWorkflowState\<close> and \<^verbatim>\<open>AppendEvent\<close>, so
  those error returns of the engine are not reached.
\<close>

definition StartWorkflowWithOptions ::
    "Engine \<Rightarrow> time \<Rightarrow> string \<Rightarrow> string \<Rightarrow> val \<Rightarrow> StartWorkflowOptions \<Rightarrow> (string + string) \<times> Engine" where
  "StartWorkflowWithOptions e now workflowID workflowName input options =
     (case workflowRegistry_Get (workflowRegistry e) workflowName of
        Inl err \<Rightarrow> (Inl (''workflow not found: '' @ err), e)
      | Inr d \<Rightarrow>
          (let mapped = (if IdempotencyKey options \<noteq> ''''
                         then MapIdempotencyKeyToWorkflow (stateStore e) (IdempotencyKey options) workflowID
                         else (stateStore e, True, ''''))
           in case mapped of (s1, created, existing) \<Rightarrow>
                if \<not> created then (Inr existing, e\<lparr>stateStore := s1\<rparr>)
                else
                  (let workflowState =
                         \<lparr>wf_WorkflowID = workflowID, wf_WorkflowName = workflowName,
                          wf_Status = StatusPending, wf_Input = input, wf_Output = VNil,
                          wf_Error = '''', wf_StartTime = now, wf_EndTime = None,
                          wf_LastEventSeq = 0, wf_TaskQueue = def_TaskQueue d\<rparr>;
                       s2 = SaveWorkflowState s1 workflowState;
                       s3 = fst (AppendEvent s2
                              (NewEvent now workflowID EventWorkflowStarted
                                 [(''workflow_name'', VStr workflowName),
                                  (''input'', input),
                                  (''task_queue'', VStr (def_TaskQueue d))]))
                   in (Inr workflowID,
                       e\<lparr>stateStore := s3, launched := launched e @ [workflowID]\<rparr>))))"

definition StartWorkflow :: "Engine \<Rightarrow> time \<Rightarrow> string \<Rightarrow> string \<Rightarrow> val \<Rightarrow> (string + string) \<times> Engine" where
  "StartWorkflow e now workflowID workflowName input =
     StartWorkflowWithOptions e now workflowID workflowName input \<lparr>IdempotencyKey = ''''\<rparr>"

definition GetWorkflowStatus :: "Engine \<Rightarrow> string \<Rightarrow> string + WorkflowState" where
  "GetWorkflowStatus e workflowID = GetWorkflowState (stateStore e) workflowID"

definition GetWorkflowEvents :: "Engine \<Rightarrow> string \<Rightarrow> Event list" where
  "GetWorkflowEvents e workflowID = GetEvents (stateStore e) workflowID"

definition CancelWorkflow :: "Engine \<Rightarrow> time \<Rightarrow> string \<Rightarrow> string option \<times> Engine" where
  "CancelWorkflow e now workflowID =
     (case GetWorkflowState (stateStore e) workflowID of
        Inl err \<Rightarrow> (Some err, e)
      | Inr workflowState \<Rightarrow>
          if IsComplete workflowState then (Some ''workflow already completed'', e)
          else
            (let st = workflowState\<lparr>wf_Status := StatusCanceled, wf_EndTime := Some now\<rparr>;
                 s1 = SaveWorkflowState (stateStore e) st;
                 s2 = fst (AppendEvent s1 (NewEvent now workflowID EventWorkflowCanceled []))
             in (None, e\<lparr>stateStore := s2\<rparr>)))"

text \<open>
  \<^verbatim>\<open>executeWorkflow\<close> runs in its own goroutine and blocks in \<^verbatim>\<open>def.Workflow.Execute\<close> for as long
  as the workflow program runs; other calls on the engine run meanwhile.  The model splits
  it at that call: \<^verbatim>\<open>executeWorkflow_begin\<close> is the code before it and yields the goroutine's
  local copy of the workflow state, \<^verbatim>\<open>executeWorkflow_finish\<close> is the code after it, given that
  copy and what the program returned (\<open>Inl\<close> the error's text, \<open>Inr\<close> the output).  The error
  of \<^verbatim>\<open>GetWorkflowState\<close> is dropped by the code and the nil state dereferenced: a panic.
\<close>

datatype driver = DriverPanic | DriverReturned | DriverExecuting WorkflowState

definition executeWorkflow_begin :: "Engine \<Rightarrow> string \<Rightarrow> driver \<times> Engine" where
  "executeWorkflow_begin e workflowID =
     (case GetWorkflowState (stateStore e) workflowID of
        Inl err \<Rightarrow> (DriverPanic, e)
      | Inr workflowState \<Rightarrow>
          if wf_Status workflowState = StatusCanceled then (DriverReturned, e)
          else if wf_Status workflowState \<noteq> StatusRunning
          then (let st = workflowState\<lparr>wf_Status := StatusRunning\<rparr>
                in (DriverExecuting st, e\<lparr>stateStore := SaveWorkflowState (stateStore e) st\<rparr>))
          else (DriverExecuting workflowState, e))"

definition executeWorkflow_finish ::
    "Engine \<Rightarrow> time \<Rightarrow> string \<Rightarrow> WorkflowState \<Rightarrow> string + val \<Rightarrow> Engine" where
  "executeWorkflow_finish e now workflowID workflowState0 outcome =
     (let workflowState = workflowState0\<lparr>wf_EndTime := Some now\<rparr>
      in case outcome of
           Inl err \<Rightarrow>
             (let st = workflowState\<lparr>wf_Status := StatusFailed, wf_Error := err\<rparr>;
                  s1 = fst (AppendEvent (stateStore e)
                         (NewEvent now workflowID EventWorkflowFailed [(''error'', VStr err)]))
              in e\<lparr>stateStore := SaveWorkflowState s1 st\<rparr>)
         | Inr output \<Rightarrow>
             (let st = workflowState\<lparr>wf_Status := StatusCompleted, wf_Output := output\<rparr>;
                  s1 = fst (AppendEvent (stateStore e)
                         (NewEvent now workflowID EventWorkflowCompleted [(''output'', output)]))
              in e\<lparr>stateStore := SaveWorkflowState s1 st\<rparr>))"

text \<open>The whole driver when nothing else runs while the workflow program executes.\<close>

definition executeWorkflow :: "Engine \<Rightarrow> time \<Rightarrow> string \<Rightarrow> string + val \<Rightarrow> driver \<times> Engine" where
  "executeWorkflow e now workflowID outcome =
     (case executeWorkflow_begin e workflowID of
        (DriverExecuting st, e1) \<Rightarrow>
          (DriverReturned, executeWorkflow_finish e1 now workflowID st outcome)
      | (d, e1) \<Rightarrow> (d, e1))"

section \<open>Package agenthttp: the SSE stream (server/agenthttp/sse.go)\<close>

text \<open>
  \<^verbatim>\<open>strconv.ParseInt(s, 10, 64)\<close>: an optional sign, then one or more decimal digits, and a
  value within the range of \<^verbatim>\<open>int64\<close>; anything else is an error (\<open>None\<close>).
\<close>

definition isDigit :: "char \<Rightarrow> bool" where
  "isDigit c = ((48::nat) \<le> of_char c \<and> of_char c \<le> (57::nat))"

definition digitsValue :: "string \<Rightarrow> nat" where
  "digitsValue ds = foldl (\<lambda>acc c. acc * 10 + (of_char c - 48)) 0 ds"

definition ParseInt :: "string \<Rightarrow> int option" where
  "ParseInt s =
     (let neg = (s \<noteq> [] \<and> hd s = CHR ''-'');
          ds = (if s \<noteq> [] \<and> (hd s = CHR ''-'' \<or> hd s = CHR ''+'') then tl s else s)
      in if ds = [] \<or> \<not> list_all isDigit ds then None
         else if neg
         then (if int (digitsValue ds) \<le> 2 ^ 63 then Some (- int (digitsValue ds)) else None)
         else (if int (digitsValue ds) < 2 ^ 63 then Some (int (digitsValue ds)) else None))"

definition parseSince :: "string \<Rightarrow> int" where
  "parseSince lastEventID =
     (if lastEventID \<noteq> ''''
      then (case ParseInt lastEventID of Some v \<Rightarrow> v | None \<Rightarrow> 0)
      else 0)"

text \<open>
  What the stream writes, one frame for each group of \<^verbatim>\<open>Fprintf\<close> calls followed by a flush:
  an event (its \<^verbatim>\<open>id:\<close>, \<^verbatim>\<open>event:\<close> and \<^verbatim>\<open>data:\<close> lines), the terminal \<^verbatim>\<open>event: done\<close> with data \<^verbatim>\<open>{}\<close>,
  and the heartbeat comment \<^verbatim>\<open>: ping\<close>.
\<close>

datatype sse_frame = EventFrame int EventType Event | DoneFrame | PingFrame

text \<open>
  One iteration of the loop takes one case of the \<^verbatim>\<open>select\<close>: the context is done, the poll
  ticker fired, or the heartbeat ticker fired.  A tick carries the getter as it answers at
  that moment (the store changes between ticks).  The loop runs for as long as cases come;
  when the list of cases ends the stream is still open.  The poll and heartbeat intervals,
  with their defaults, only decide when the tickers fire.
\<close>

datatype select_case = CtxDone | Tick "int \<Rightarrow> string + Event list" | Heartbeat

datatype stream_end = Returned "string option" | StillOpen

definition isTerminalEvent :: "EventType \<Rightarrow> bool" where
  "isTerminalEvent t =
     (t = EventWorkflowCompleted \<or> t = EventWorkflowFailed \<or> t = EventWorkflowCanceled)"

fun writeEvents :: "int \<Rightarrow> Event list \<Rightarrow> sse_frame list \<times> int \<times> bool" where
  "writeEvents since [] = ([], since, False)"
| "writeEvents since (ev # evs) =
     (let since1 = (if ev_SequenceNum ev > since then ev_SequenceNum ev else since);
          frame = EventFrame (ev_SequenceNum ev) (ev_Type ev) ev
      in if isTerminalEvent (ev_Type ev) then ([frame, DoneFrame], since1, True)
         else (case writeEvents since1 evs of
                 (frames, since2, done) \<Rightarrow> (frame # frames, since2, done)))"

fun streamLoop :: "int \<Rightarrow> select_case list \<Rightarrow> sse_frame list \<times> stream_end" where
  "streamLoop since [] = ([], StillOpen)"
| "streamLoop since (CtxDone # cs) = ([], Returned None)"
| "streamLoop since (Heartbeat # cs) =
     (case streamLoop since cs of (frames, r) \<Rightarrow> (PingFrame # frames, r))"
| "streamLoop since (Tick getSince # cs) =
     (case getSince since of
        Inl err \<Rightarrow> ([], Returned (Some err))
      | Inr evs \<Rightarrow>
          (case writeEvents since evs of
             (frames, since1, done) \<Rightarrow>
               if done then (frames, Returned None)
               else (case streamLoop since1 cs of (frames1, r) \<Rightarrow> (frames @ frames1, r))))"

definition StreamEvents :: "bool \<Rightarrow> string \<Rightarrow> select_case list \<Rightarrow> sse_frame list \<times> stream_end" where
  "StreamEvents isFlusher lastEventID cs =
     (if \<not> isFlusher then ([], Returned (Some ''stream unsupported''))
      else streamLoop (parseSince lastEventID) cs)"

text \<open>The getter the server passes to the stream: the store's \<^verbatim>\<open>GetEventsSince\<close>.\<close>

definition storeGetter :: "InMemoryStore \<Rightarrow> string \<Rightarrow> int \<Rightarrow> string + Event list" where
  "storeGetter s workflowID since = Inr (GetEventsSince s workflowID since)"

text \<open>The id of the first event frame among the frames written, if any.\<close>

fun firstEventID :: "sse_frame list \<Rightarrow> int option" where
  "firstEventID [] = None"
| "firstEventID (EventFrame i t ev # fs) = Some i"
| "firstEventID (DoneFrame # fs) = firstEventID fs"
| "firstEventID (PingFrame # fs) = firstEventID fs"

section \<open>Package engine: futures (engine/context.go, futureImpl)\<close>

text \<open>
  The \<^verbatim>\<open>valuePtr\<close> argument of \<^verbatim>\<open>Get\<close> is an \<^verbatim>\<open>interface{}\<close>: the nil interface, a pointer of type
  \<^verbatim>\<open>*interface{}\<close>, or a pointer of another type (named by a string).  A pointer is an address
  (\<open>Some a\<close>) or the nil pointer of its type (\<open>None\<close>), which is not the nil interface.  The
  cells that \<^verbatim>\<open>*interface{}\<close> pointers point to form a heap from addresses to values.
\<close>

datatype valuePtr = NilInterface | PtrInterface "nat option" | PtrOther string "nat option"

record futureImpl =
  fut_id :: string
  fut_value :: val
  fut_err :: "string option"
  fut_ready :: bool

datatype get_result =
    GetReturned "string option" "nat \<rightharpoonup> val"
  | GetPanic string
  | GetBlocked

definition newFuture :: "string \<Rightarrow> futureImpl" where
  "newFuture i = \<lparr>fut_id = i, fut_value = VNil, fut_err = None, fut_ready = False\<rparr>"

definition setValue :: "futureImpl \<Rightarrow> val \<Rightarrow> futureImpl" where
  "setValue f v = f\<lparr>fut_value := v, fut_ready := True\<rparr>"

definition setError :: "futureImpl \<Rightarrow> string \<Rightarrow> futureImpl" where
  "setError f err = f\<lparr>fut_err := Some err, fut_ready := True\<rparr>"

definition IsReady :: "futureImpl \<Rightarrow> bool" where
  "IsReady f = fut_ready f"

text \<open>
  \<^verbatim>\<open>Get\<close>.  The channel \<^verbatim>\<open>readyCh\<close> is closed exactly when the future is ready.  \<open>ctxErr\<close> is the
  error of the context when it is done (\<open>None\<close> while it is live).  When both cases of the
  \<^verbatim>\<open>select\<close> are ready Go picks either; \<open>pickReady\<close> says whether it picks the ready channel.
  When neither is ready the call blocks.
\<close>

definition Get ::
    "futureImpl \<Rightarrow> string option \<Rightarrow> bool \<Rightarrow> valuePtr \<Rightarrow> (nat \<rightharpoonup> val) \<Rightarrow> get_result" where
  "Get f ctxErr pickReady valuePtr heap =
     (if \<not> fut_ready f \<and> ctxErr = None then GetBlocked
      else if ctxErr \<noteq> None \<and> \<not> (fut_ready f \<and> pickReady) then GetReturned ctxErr heap
      else case fut_err f of
             Some err \<Rightarrow> GetReturned (Some err) heap
           | None \<Rightarrow>
               (case valuePtr of
                  NilInterface \<Rightarrow> GetReturned None heap
                | PtrInterface None \<Rightarrow> GetPanic ''invalid memory address or nil pointer dereference''
                | PtrInterface (Some a) \<Rightarrow> GetReturned None (heap(a \<mapsto> fut_value f))
                | PtrOther ty p \<Rightarrow>
                    GetPanic (''interface conversion: interface {} is '' @ ty @ '', not *interface {}'')))"

section \<open>Observations used in the statements\<close>

text \<open>The shape of a well-numbered log: the sequence numbers are 1, 2, ..., n in order.\<close>

definition seq_ok :: "Event list \<Rightarrow> bool" where
  "seq_ok es = (map ev_SequenceNum es = [1..int (length es)])"

text \<open>The event types of a workflow's log, in order.\<close>

definition eventTypes :: "InMemoryStore \<Rightarrow> string \<Rightarrow> EventType list" where
  "eventTypes s workflowID = map ev_Type (GetEvents s workflowID)"

text \<open>The inflight record of a task id in a queue, if there is one.\<close>

definition inflight :: "InMemoryQueue \<Rightarrow> string \<Rightarrow> string \<Rightarrow> pendingRecord option" where
  "inflight q queueName taskID =
     (case pending q queueName of None \<Rightarrow> None | Some p \<Rightarrow> p taskID)"

text \<open>The visibility timeout \<^verbatim>\<open>DequeueWithTimeout\<close> works with: 30 seconds unless the option is positive.\<close>

definition effectiveVisibility :: "InMemoryQueue \<Rightarrow> duration" where
  "effectiveVisibility q =
     (if VisibilityTimeout (opts q) \<le> 0 then 30 * second else VisibilityTimeout (opts q))"

text \<open>
  Properties of what a stream wrote.  \<open>hasTerminalFrame\<close>: some event frame written is a
  terminal workflow event.  \<open>doneAfterTerminal\<close>: every terminal event frame is followed by
  the done frame and nothing else.  \<open>quiet since\<close>: a case of the select that writes no
  event frame and leaves \<open>since\<close> alone, that is a heartbeat, or a tick at which the getter
  has no event after \<open>since\<close>.
\<close>

fun hasTerminalFrame :: "sse_frame list \<Rightarrow> bool" where
  "hasTerminalFrame [] = False"
| "hasTerminalFrame (EventFrame i t ev # fs) = (isTerminalEvent t \<or> hasTerminalFrame fs)"
| "hasTerminalFrame (DoneFrame # fs) = hasTerminalFrame fs"
| "hasTerminalFrame (PingFrame # fs) = hasTerminalFrame fs"

fun doneAfterTerminal :: "sse_frame list \<Rightarrow> bool" where
  "doneAfterTerminal [] = True"
| "doneAfterTerminal (EventFrame i t ev # fs) =
     (if isTerminalEvent t then fs = [DoneFrame] else doneAfterTerminal fs)"
| "doneAfterTerminal (DoneFrame # fs) = doneAfterTerminal fs"
| "doneAfterTerminal (PingFrame # fs) = doneAfterTerminal fs"

fun quiet :: "int \<Rightarrow> select_case \<Rightarrow> bool" where
  "quiet since CtxDone = False"
| "quiet since Heartbeat = True"
| "quiet since (Tick getSince) = (getSince since = Inr [])"

section \<open>Concrete scenarios\<close>

text \<open>A store holding one running workflow whose \<^verbatim>\<open>LastEventSeq\<close> is 0.\<close>

definition seq_example_state :: WorkflowState where
  "seq_example_state =
     \<lparr>wf_WorkflowID = ''wf-1'', wf_WorkflowName = ''demo'', wf_Status = StatusRunning,
      wf_Input = VNil, wf_Output = VNil, wf_Error = '''', wf_StartTime = 0, wf_EndTime = None,
      wf_LastEventSeq = 0, wf_TaskQueue = ''default''\<rparr>"

definition seq_example_store :: InMemoryStore where
  "seq_example_store = SaveWorkflowState NewInMemoryStore seq_example_state"

text \<open>
  A workflow is started, its driver reaches the workflow program (\<open>race_local\<close> is the
  driver's copy of the state), the workflow is canceled while the program runs, and the
  program then returns an output.
\<close>

definition race_engine0 :: Engine where
  "race_engine0 =
     \<lparr>stateStore = NewInMemoryStore,
      workflowRegistry =
        [''demo'' \<mapsto> \<lparr>def_Name = ''demo'', def_TaskQueue = ''default'', def_ExecutionTimeout = 0\<rparr>],
      launched = []\<rparr>"

definition race_engine1 :: Engine where
  "race_engine1 = snd (StartWorkflow race_engine0 10 ''wf-1'' ''demo'' (VStr ''in''))"

definition race_local :: WorkflowState where
  "race_local =
     \<lparr>wf_WorkflowID = ''wf-1'', wf_WorkflowName = ''demo'', wf_Status = StatusRunning,
      wf_Input = VStr ''in'', wf_Output = VNil, wf_Error = '''', wf_StartTime = 10,
      wf_EndTime = None, wf_LastEventSeq = 0, wf_TaskQueue = ''default''\<rparr>"

definition race_engine2 :: Engine where
  "race_engine2 = snd (executeWorkflow_begin race_engine1 ''wf-1'')"

definition race_engine3 :: Engine where
  "race_engine3 = snd (CancelWorkflow race_engine2 20 ''wf-1'')"

definition race_engine4 :: Engine where
  "race_engine4 = executeWorkflow_finish race_engine3 30 ''wf-1'' race_local (Inr (VStr ''out''))"

text \<open>
  An activity registered with a retry policy of one attempt, a worker on the default
  queue, and a fresh task for that activity waiting in the queue.
\<close>

definition once_info :: Info where
  "once_info =
     \<lparr>info_Name = '''', info_Description = ''no retries'', info_Timeout = 5 * second,
      info_RetryPolicy = Some \<lparr>MaxAttempts = 1, InitialInterval = second,
                               MaxInterval = 60 * second, NonRetryableErrors = []\<rparr>\<rparr>"

definition once_registry :: Registry where
  "once_registry =
     (case Register NewRegistry ''once'' once_info of Inr r \<Rightarrow> r | Inl err \<Rightarrow> NewRegistry)"

definition once_worker :: Worker where
  "once_worker =
     \<lparr>w_id = ''w1'', w_queueName = ''default'', w_activityRegistry = once_registry,
      w_pollInterval = second, w_maxConcurrent = 1\<rparr>"

definition once_task :: Task where
  "once_task =
     \<lparr>task_ID = ''t1'', task_Type = TaskTypeActivity, task_WorkflowID = ''wf-1'',
      task_ActivityID = ''a1'', task_ActivityName = ''once'', task_Input = VStr ''in'',
      task_Metadata = [], task_EnqueueTime = 0, task_Attempts = 0\<rparr>"

definition once_queue :: InMemoryQueue where
  "once_queue = fst (Enqueue NewInMemoryQueue ''default'' liveEnv once_task)"

text \<open>
  An activity registered without a retry policy (the registry gives it the default one),
  and a fresh task for it.
\<close>

definition flaky_registry :: Registry where
  "flaky_registry =
     (case Register NewRegistry ''flaky''
             \<lparr>info_Name = '''', info_Description = ''fails first'', info_Timeout = 0,
              info_RetryPolicy = None\<rparr> of
        Inr r \<Rightarrow> r
      | Inl err \<Rightarrow> NewRegistry)"

definition flaky_worker :: Worker where
  "flaky_worker =
     \<lparr>w_id = ''w1'', w_queueName = ''default'', w_activityRegistry = flaky_registry,
      w_pollInterval = second, w_maxConcurrent = 1\<rparr>"

definition flaky_task :: Task where
  "flaky_task =
     \<lparr>task_ID = ''t2'', task_Type = TaskTypeActivity, task_WorkflowID = ''wf-2'',
      task_ActivityID = ''a2'', task_ActivityName = ''flaky'', task_Input = VInt 7,
      task_Metadata = [], task_EnqueueTime = 0, task_Attempts = 0\<rparr>"

definition flaky_queue :: InMemoryQueue where
  "flaky_queue = fst (Enqueue NewInMemoryQueue ''default'' liveEnv flaky_task)"

text \<open>
  A store in which activity \<^verbatim>\<open>a2\<close> is already completed with output 42, and a task for the
  same activity id that names an activity (\<^verbatim>\<open>echo\<close>) the worker has not registered.
\<close>

definition dup_state :: ActivityState where
  "dup_state =
     \<lparr>act_ActivityID = ''a2'', act_ActivityName = ''flaky'', act_WorkflowID = ''wf-2'',
      act_Status = StatusCompleted, act_Input = VInt 7, act_Output = VInt 42, act_Error = '''',
      act_StartTime = 50, act_EndTime = Some 60, act_Attempt = 1\<rparr>"

definition dup_store :: InMemoryStore where
  "dup_store = SaveActivityState NewInMemoryStore dup_state"

definition ghost_task :: Task where
  "ghost_task = flaky_task\<lparr>task_ActivityName := ''echo''\<rparr>"

definition ghost_queue :: InMemoryQueue where
  "ghost_queue = fst (Enqueue NewInMemoryQueue ''default'' liveEnv ghost_task)"

text \<open>An engine in which workflow \<^verbatim>\<open>wf-1\<close> has been started under the idempotency key \<^verbatim>\<open>K\<close>.\<close>

definition idem_engine :: Engine where
  "idem_engine =
     snd (StartWorkflowWithOptions race_engine0 10 ''wf-1'' ''demo'' (VStr ''in'')
            \<lparr>IdempotencyKey = ''K''\<rparr>)"

text \<open>
  A queue made with only the dead-letter option set, so that its visibility timeout is the
  zero value, and a queue configured with a negative visibility timeout; each holds one
  task.
\<close>

definition zerovis_queue :: InMemoryQueue where
  "zerovis_queue =
     fst (Enqueue (NewInMemoryQueueWithOptions \<lparr>VisibilityTimeout = 0, EnableDLQ = True\<rparr>)
            ''default'' liveEnv flaky_task)"

definition negvis_queue :: InMemoryQueue where
  "negvis_queue =
     fst (Enqueue (NewInMemoryQueueWithOptions
                     \<lparr>VisibilityTimeout = - 5 * second, EnableDLQ = False\<rparr>)
            ''default'' liveEnv flaky_task)"

text \<open>
  A context that is done, met by a \<^verbatim>\<open>select\<close> that takes \<^verbatim>\<open>ctx.Done()\<close> although the channel is
  ready; a live context with a timer that has fired; and a queue whose one task has been
  delivered \<open>2^63 - 1\<close> times.
\<close>

definition canceledEnv :: select_env where
  "canceledEnv = \<lparr>env_ctx = Some ''context canceled'', env_timer = False, env_pick = 1\<rparr>"

definition firedEnv :: select_env where
  "firedEnv = \<lparr>env_ctx = None, env_timer = True, env_pick = 0\<rparr>"

definition maxed_task :: Task where
  "maxed_task = flaky_task\<lparr>task_Attempts := 2 ^ 63 - 1\<rparr>"

definition maxed_queue :: InMemoryQueue where
  "maxed_queue = fst (Enqueue NewInMemoryQueue ''default'' liveEnv maxed_task)"

text \<open>
  A store with three events of workflow \<^verbatim>\<open>wf-1\<close>, the last one terminal, and a stream resumed
  after event 1 that sees a heartbeat and then a tick.
\<close>

definition sse_store :: InMemoryStore where
  "sse_store =
     run_ops NewInMemoryStore
       [OpAppendEvent (NewEvent 1 ''wf-1'' EventWorkflowStarted []),
        OpAppendEvent (NewEvent 2 ''wf-1'' EventActivityScheduled []),
        OpAppendEvent (NewEvent 3 ''wf-1'' EventWorkflowCompleted [])]"

definition sse_cases :: "select_case list" where
  "sse_cases = [Heartbeat, Tick (storeGetter sse_store ''wf-1''), Heartbeat]"

section \<open>Sequence numbers of the event log\<close>

lemma seq_ok_Nil: "seq_ok []"
  by (simp add: seq_ok_def)

lemma upto_snoc_len: "[1..int (length es) + 1] = [1..int (length es)] @ [int (length es) + 1]"
  by (simp add: upto_rec2)

lemma seq_ok_snoc:
  "seq_ok es \<Longrightarrow> seq_ok (es @ [e\<lparr>ev_SequenceNum := int (length es) + 1\<rparr>])"
  using upto_snoc_len [of es] by (simp add: seq_ok_def add.commute)

lemma GetEvents_apply_op:
  "GetEvents (apply_op s op) wid = GetEvents s wid
   \<or> GetEvents (apply_op s op) wid = []
   \<or> (\<exists>e. GetEvents (apply_op s op) wid
          = GetEvents s wid @ [e\<lparr>ev_SequenceNum := int (length (GetEvents s wid)) + 1\<rparr>])"
proof (cases op)
  case (OpAppendEvent e)
  then show ?thesis
    by (auto simp: GetEvents_def AppendEvent_def Let_def split: option.splits)
next
  case (OpDeleteWorkflow w)
  then show ?thesis by (simp add: GetEvents_def DeleteWorkflow_def)
next
  case (OpMapIdempotencyKey k w)
  then show ?thesis
    by (simp add: GetEvents_def MapIdempotencyKeyToWorkflow_def split: option.splits)
next
  case (OpScheduleTimer w t f)
  then show ?thesis
    by (simp add: GetEvents_def ScheduleTimer_def Let_def split: option.splits)
next
  case (OpMarkTimerFired w t)
  then show ?thesis
    by (simp add: GetEvents_def MarkTimerFired_def split: option.splits)
qed (simp_all add: GetEvents_def SaveWorkflowState_def SaveActivityState_def)

lemma seq_ok_apply_op: "seq_ok (GetEvents s wid) \<Longrightarrow> seq_ok (GetEvents (apply_op s op) wid)"
  using GetEvents_apply_op [of s op wid] seq_ok_snoc [of "GetEvents s wid"]
  by (auto simp: seq_ok_Nil)

lemma seq_ok_foldl:
  "seq_ok (GetEvents s wid) \<Longrightarrow> seq_ok (GetEvents (foldl apply_op s ops) wid)"
  by (induction ops arbitrary: s) (simp_all add: seq_ok_apply_op)

lemma seq_ok_run_ops: "seq_ok (GetEvents (run_ops NewInMemoryStore ops) wid)"
  unfolding run_ops_def
  by (rule seq_ok_foldl) (simp add: GetEvents_def NewInMemoryStore_def seq_ok_def)



section \<open>The workflow state across an append\<close>

lemma AppendEvent_workflows: "workflows (fst (AppendEvent s e)) = workflows s"
  by (simp add: AppendEvent_def Let_def)

lemma GetWorkflowState_AppendEvent:
  "GetWorkflowState (fst (AppendEvent s e)) wid = GetWorkflowState s wid"
  by (simp add: GetWorkflowState_def AppendEvent_workflows)

text \<open>
  C5.  The claim says that an append also sets the owning workflow state's \<^verbatim>\<open>LastEventSeq\<close>
  to the appended event's sequence number.  The in-memory \<^verbatim>\<open>AppendEvent\<close> never touches the
  workflow states: \<^verbatim>\<open>GetWorkflowState\<close> answers after an append what it answered before.  On
  the store holding workflow \<^verbatim>\<open>wf-1\<close> with \<^verbatim>\<open>LastEventSeq = 0\<close>, appending an event gives the event
  sequence number 1 and leaves the state, and its \<^verbatim>\<open>LastEventSeq = 0\<close>, as they were.
\<close>

theorem AppendEvent_LastEventSeq_not_updated:
  "GetWorkflowState (fst (AppendEvent s e)) wid = GetWorkflowState s wid
   \<and> ev_SequenceNum (snd (AppendEvent seq_example_store (NewEvent 5 ''wf-1'' EventSignalReceived []))) = 1
   \<and> GetWorkflowState
        (fst (AppendEvent seq_example_store (NewEvent 5 ''wf-1'' EventSignalReceived []))) ''wf-1''
       = Inr seq_example_state
   \<and> wf_LastEventSeq seq_example_state = 0"
proof -
  have b: "ev_SequenceNum (snd (AppendEvent seq_example_store (NewEvent 5 ''wf-1'' EventSignalReceived []))) = 1"
    by (simp add: AppendEvent_def seq_example_store_def SaveWorkflowState_def NewInMemoryStore_def
        NewEvent_def Let_def)
  have c: "GetWorkflowState seq_example_store ''wf-1'' = Inr seq_example_state"
    by (simp add: GetWorkflowState_def seq_example_store_def SaveWorkflowState_def seq_example_state_def)
  have d: "wf_LastEventSeq seq_example_state = 0"
    by (simp add: seq_example_state_def)
  from b c d show ?thesis by (simp add: GetWorkflowState_AppendEvent)
qed

section \<open>Cancellation against a running driver\<close>

text \<open>
  C4.  The claim says that a terminal status never changes and that no
  \<^verbatim>\<open>workflow_completed\<close> or \<^verbatim>\<open>workflow_failed\<close> event follows a successful cancel.  In the run
  below the workflow is started, its driver passes the cancellation check and enters the
  workflow program, \<^verbatim>\<open>CancelWorkflow\<close> succeeds and the status is \<^verbatim>\<open>canceled\<close>; when the program
  returns, the end of \<^verbatim>\<open>executeWorkflow\<close> appends \<^verbatim>\<open>workflow_completed\<close> after \<^verbatim>\<open>workflow_canceled\<close>
  and saves the status \<^verbatim>\<open>completed\<close> over \<^verbatim>\<open>canceled\<close>.
\<close>

theorem executeWorkflow_overwrites_Canceled:
  "fst (StartWorkflow race_engine0 10 ''wf-1'' ''demo'' (VStr ''in'')) = Inr ''wf-1''
   \<and> fst (executeWorkflow_begin race_engine1 ''wf-1'') = DriverExecuting race_local
   \<and> fst (CancelWorkflow race_engine2 20 ''wf-1'') = None
   \<and> map_sum id wf_Status (GetWorkflowStatus race_engine3 ''wf-1'') = Inr StatusCanceled
   \<and> map_sum id wf_Status (GetWorkflowStatus race_engine4 ''wf-1'') = Inr StatusCompleted
   \<and> map ev_Type (GetWorkflowEvents race_engine4 ''wf-1'')
       = [EventWorkflowStarted, EventWorkflowCanceled, EventWorkflowCompleted]"
  by (simp add: race_engine0_def race_engine1_def race_engine2_def race_engine3_def
      race_engine4_def race_local_def StartWorkflow_def StartWorkflowWithOptions_def
      workflowRegistry_Get_def executeWorkflow_begin_def executeWorkflow_finish_def
      CancelWorkflow_def GetWorkflowState_def SaveWorkflowState_def AppendEvent_def NewEvent_def
      NewInMemoryStore_def IsComplete_def IsTerminal_def GetWorkflowStatus_def
      GetWorkflowEvents_def GetEvents_def Let_def)

section \<open>The select and the wrap-around\<close>

lemma wrapInt_id: "- (2 ^ 63) \<le> x \<Longrightarrow> x < 2 ^ 63 \<Longrightarrow> wrapInt x = x"
  by (simp add: wrapInt_def)

lemma wrapInt_max: "wrapInt (2 ^ 63 - 1 + 1) = - (2 ^ 63)"
  by (simp add: wrapInt_def)

lemma selectReady_channel_only: "selectReady True False False pick = Some SelChannel"
  by (simp add: selectReady_def)

lemma selectReady_timer_only: "selectReady False True False pick = Some SelTimer"
  by (simp add: selectReady_def)

lemma selectReady_done_only: "selectReady False False True pick = Some SelDone"
  by (simp add: selectReady_def)

lemma selectReady_none: "selectReady False False False pick = None"
  by (simp add: selectReady_def)

lemma liveEnv_fields:
  "env_ctx liveEnv = None" "env_timer liveEnv = False" "env_pick liveEnv = 0"
  by (simp_all add: liveEnv_def)

section \<open>The worker's decision after a failed execution\<close>

lemma once_registry_eq: "once_registry = [''once'' \<mapsto> once_info\<lparr>info_Name := ''once''\<rparr>]"
  by (simp add: once_registry_def Register_def NewRegistry_def once_info_def)

lemma once_dequeue:
  "DequeueWithTimeout once_queue ''default'' second liveEnv 100
     = (\<lparr>queues = [''default'' \<mapsto> []],
         pending = [''default'' \<mapsto> [''t1'' \<mapsto>
            \<lparr>pr_task = once_task\<lparr>task_Attempts := 1\<rparr>, pr_deadline = 100 + 30 * second\<rparr>]],
         dlq = [''default'' \<mapsto> []], closed = False,
         opts = \<lparr>VisibilityTimeout = 30 * second, EnableDLQ = False\<rparr>\<rparr>,
        Inr (once_task\<lparr>task_Attempts := 1\<rparr>))"
  by (simp add: DequeueWithTimeout_def once_queue_def Enqueue_def selectReady_def liveEnv_fields wrapInt_def NewInMemoryQueue_def
      NewInMemoryQueueWithOptions_def getOrCreateQueue_def addPending_def once_task_def Let_def)

text \<open>
  C6.  The claim says that a failed task is nacked with \<^verbatim>\<open>requeue = task.Attempts < maxAttempts\<close>,
  \<^verbatim>\<open>maxAttempts\<close> coming from the registered activity's retry policy.  \<^verbatim>\<open>pollOnce\<close> compares with
  the constant 3 and never reads the policy.  The activity \<^verbatim>\<open>once\<close> is registered with
  \<^verbatim>\<open>MaxAttempts = 1\<close>; its task is delivered for the first time (\<^verbatim>\<open>Attempts = 1\<close> after the dequeue)
  and fails.  By the claim \<^verbatim>\<open>requeue\<close> is \<open>1 < 1\<close>, false; the worker calls \<^verbatim>\<open>Nack\<close> with
  \<^verbatim>\<open>requeue = true\<close> and the task is ready in the queue again.
\<close>

theorem pollOnce_requeue_ignores_retry_policy:
  "map_sum id (map_option MaxAttempts \<circ> info_RetryPolicy) (Registry_Get once_registry ''once'')
     = Inr (Some 1)
   \<and> snd (pollOnce once_worker liveEnv liveEnv 100 ([], Inl ''boom'') (once_queue, NewInMemoryStore))
       = PollNack (once_task\<lparr>task_Attempts := 1\<rparr>)
           \<lparr>res_TaskID = ''t1'', res_WorkflowID = ''wf-1'', res_ActivityID = ''a1'',
            res_Success = False, res_Output = VNil, res_Error = ''boom''\<rparr>
           True None
   \<and> Len (fst (fst (pollOnce once_worker liveEnv liveEnv 100 ([], Inl ''boom'') (once_queue, NewInMemoryStore))))
         ''default'' = 1"
  by (simp add: pollOnce_def once_dequeue once_worker_def once_registry_eq executeTask_def
      executeActivity_def Registry_Get_def GetActivityState_def NewInMemoryStore_def
      finishActivity_def emitEvents_def newResult_def SaveActivityState_def AppendEvent_def
      NewEvent_def Nack_def removePending_def Enqueue_def selectReady_def liveEnv_fields wrapInt_def getOrCreateQueue_def Len_def
      once_task_def once_info_def Let_def)

section \<open>The events a delivery appends\<close>

lemma eventTypes_AppendEvent:
  "eventTypes (fst (AppendEvent s (NewEvent now wid ty d))) wid = eventTypes s wid @ [ty]"
  by (simp add: eventTypes_def GetEvents_def AppendEvent_def NewEvent_def Let_def
      split: option.splits)

lemma eventTypes_SaveActivityState: "eventTypes (SaveActivityState s st) wid = eventTypes s wid"
  by (simp add: eventTypes_def GetEvents_def SaveActivityState_def)

lemma eventTypes_emitEvents:
  "eventTypes (emitEvents s wid now ems) wid = eventTypes s wid @ map fst ems"
  unfolding emitEvents_def
  by (induction ems arbitrary: s) (simp_all add: eventTypes_AppendEvent)

lemma finishActivity_failed:
  "snd run = Inl err \<Longrightarrow>
   eventTypes (snd (finishActivity s task now run st res)) (task_WorkflowID task)
     = eventTypes s (task_WorkflowID task) @ map fst (fst run) @ [EventActivityFailed]"
  by (simp add: finishActivity_def Let_def eventTypes_SaveActivityState eventTypes_AppendEvent
      eventTypes_emitEvents)

lemma finishActivity_success:
  "snd run = Inr out \<Longrightarrow> res_Success (fst (finishActivity s task now run st res))"
  by (simp add: finishActivity_def Let_def)

lemma finishActivity_cases:
  "res_Success (fst (finishActivity s task now run st res))
   \<or> eventTypes (snd (finishActivity s task now run st res)) (task_WorkflowID task)
       = eventTypes s (task_WorkflowID task) @ map fst (fst run) @ [EventActivityFailed]"
  using finishActivity_failed [of run _ s task now st res] finishActivity_success [of run _ s task now st res]
  by (cases "snd run") auto

lemma executeActivity_unsuccessful:
  assumes "\<not> res_Success (fst (executeActivity w s task now run))"
  shows "\<exists>added. eventTypes (snd (executeActivity w s task now run)) (task_WorkflowID task)
            = eventTypes s (task_WorkflowID task) @ added
          \<and> added \<in> set [[], map fst (fst run) @ [EventActivityFailed],
                           EventActivityStarted # map fst (fst run) @ [EventActivityFailed]]"
proof (cases "Registry_Get (w_activityRegistry w) (task_ActivityName task)")
  case (Inl err)
  then show ?thesis by (simp add: executeActivity_def Let_def)
next
  case (Inr reg)
  show ?thesis
  proof (cases "GetActivityState s (task_ActivityID task)")
    case (Inr existing)
    show ?thesis
    proof (cases "act_Status existing = StatusCompleted")
      case True
      with Inr \<open>Registry_Get _ _ = Inr reg\<close> assms show ?thesis
        by (simp add: executeActivity_def Let_def)
    next
      case False
      with Inr \<open>Registry_Get _ _ = Inr reg\<close> assms
        finishActivity_cases [of s task now run existing "newResult task"]
      show ?thesis by (simp add: executeActivity_def Let_def)
    qed
  next
    case (Inl getErr)
    let ?st = "\<lparr>act_ActivityID = task_ActivityID task,
                 act_ActivityName = task_ActivityName task,
                 act_WorkflowID = task_WorkflowID task,
                 act_Status = StatusRunning,
                 act_Input = task_Input task,
                 act_Output = VNil,
                 act_Error = '''',
                 act_StartTime = now,
                 act_EndTime = None,
                 act_Attempt = task_Attempts task\<rparr>"
    let ?s2 = "fst (AppendEvent (SaveActivityState s ?st)
                 (NewEvent now (task_WorkflowID task) EventActivityStarted
                    [(''activity_id'', VStr (task_ActivityID task)),
                     (''activity_name'', VStr (task_ActivityName task))]))"
    have e: "executeActivity w s task now run = finishActivity ?s2 task now run ?st (newResult task)"
      using Inl \<open>Registry_Get _ _ = Inr reg\<close> by (simp add: executeActivity_def Let_def)
    have t: "eventTypes ?s2 (task_WorkflowID task)
               = eventTypes s (task_WorkflowID task) @ [EventActivityStarted]"
      by (simp add: eventTypes_AppendEvent eventTypes_SaveActivityState)
    from assms e finishActivity_cases [of ?s2 task now run ?st "newResult task"] t
    show ?thesis by simp
  qed
qed

lemma executeTask_unsuccessful:
  assumes "\<not> res_Success (fst (executeTask w s task now run))"
  shows "\<exists>added. eventTypes (snd (executeTask w s task now run)) (task_WorkflowID task)
            = eventTypes s (task_WorkflowID task) @ added
          \<and> added \<in> set [[], map fst (fst run) @ [EventActivityFailed],
                           EventActivityStarted # map fst (fst run) @ [EventActivityFailed]]"
proof (cases "task_Type task = TaskTypeActivity")
  case True
  with assms executeActivity_unsuccessful [of w s task now run] show ?thesis
    by (simp add: executeTask_def)
next
  case False
  then show ?thesis by (simp add: executeTask_def)
qed

lemma pollOnce_PollNack:
  assumes "pollOnce w deqEnv nackEnv now run (q, s) = ((q', s'), PollNack task result requeue err)"
  shows "s' = snd (executeTask w s task now run)
         \<and> result = fst (executeTask w s task now run)
         \<and> \<not> res_Success result
         \<and> requeue = (task_Attempts task < 3)"
  using assms
  by (auto simp: pollOnce_def Let_def split: prod.splits sum.splits if_splits)

lemma flaky_registry_eq:
  "flaky_registry = [''flaky'' \<mapsto>
     \<lparr>info_Name = ''flaky'', info_Description = ''fails first'', info_Timeout = 30 * second,
      info_RetryPolicy = Some DefaultRetryPolicy\<rparr>]"
  by (simp add: flaky_registry_def Register_def NewRegistry_def)

lemma flaky_queue_eq:
  "flaky_queue =
     \<lparr>queues = [''default'' \<mapsto> [flaky_task]], pending = [''default'' \<mapsto> Map.empty],
      dlq = [''default'' \<mapsto> []], closed = False,
      opts = \<lparr>VisibilityTimeout = 30 * second, EnableDLQ = False\<rparr>\<rparr>"
  by (simp add: flaky_queue_def Enqueue_def selectReady_def liveEnv_fields wrapInt_def NewInMemoryQueue_def NewInMemoryQueueWithOptions_def
      getOrCreateQueue_def)

lemma ghost_queue_eq:
  "ghost_queue =
     \<lparr>queues = [''default'' \<mapsto> [ghost_task]], pending = [''default'' \<mapsto> Map.empty],
      dlq = [''default'' \<mapsto> []], closed = False,
      opts = \<lparr>VisibilityTimeout = 30 * second, EnableDLQ = False\<rparr>\<rparr>"
  by (simp add: ghost_queue_def Enqueue_def selectReady_def liveEnv_fields wrapInt_def NewInMemoryQueue_def NewInMemoryQueueWithOptions_def
      getOrCreateQueue_def)

lemma flaky_poll_fails:
  "pollOnce flaky_worker liveEnv liveEnv 100 ([], Inl ''transient'') (flaky_queue, NewInMemoryStore)
     = ((fst (fst (pollOnce flaky_worker liveEnv liveEnv 100 ([], Inl ''transient'') (flaky_queue, NewInMemoryStore))),
         snd (fst (pollOnce flaky_worker liveEnv liveEnv 100 ([], Inl ''transient'') (flaky_queue, NewInMemoryStore)))),
        PollNack (flaky_task\<lparr>task_Attempts := 1\<rparr>)
          \<lparr>res_TaskID = ''t2'', res_WorkflowID = ''wf-2'', res_ActivityID = ''a2'',
           res_Success = False, res_Output = VNil, res_Error = ''transient''\<rparr>
          True None)"
  by (simp add: pollOnce_def flaky_queue_eq flaky_worker_def flaky_registry_eq
      DequeueWithTimeout_def getOrCreateQueue_def addPending_def executeTask_def
      executeActivity_def Registry_Get_def GetActivityState_def NewInMemoryStore_def
      finishActivity_def emitEvents_def newResult_def SaveActivityState_def AppendEvent_def
      NewEvent_def Nack_def removePending_def Enqueue_def selectReady_def liveEnv_fields wrapInt_def flaky_task_def Let_def)

lemma flaky_poll_events:
  "eventTypes (snd (fst (pollOnce flaky_worker liveEnv liveEnv 100 ([], Inl ''transient'')
       (flaky_queue, NewInMemoryStore)))) ''wf-2'' = [EventActivityStarted, EventActivityFailed]"
  by (simp add: pollOnce_def flaky_queue_eq flaky_worker_def flaky_registry_eq
      DequeueWithTimeout_def getOrCreateQueue_def addPending_def executeTask_def
      executeActivity_def Registry_Get_def GetActivityState_def NewInMemoryStore_def
      finishActivity_def emitEvents_def newResult_def SaveActivityState_def AppendEvent_def
      NewEvent_def Nack_def removePending_def Enqueue_def selectReady_def liveEnv_fields wrapInt_def flaky_task_def Let_def
      eventTypes_def GetEvents_def)

text \<open>
  What a nacked delivery appends, with \<^verbatim>\<open>requeue\<close> true or false: the event types the
  delivery adds to the workflow's log are nothing (the task was not executed), or the
  types of the events the activity emitted followed by \<^verbatim>\<open>activity_failed\<close>, preceded by
  \<^verbatim>\<open>activity_started\<close> when the activity had no state yet.  Unless the activity emitted one
  itself, the number of \<^verbatim>\<open>activity_retrying\<close> events in the log is unchanged.
\<close>

lemma pollOnce_nack_appended_events:
  assumes "pollOnce w deqEnv nackEnv now run (q, s) = ((q', s'), PollNack task result requeue err)"
  shows "(\<exists>added. eventTypes s' (task_WorkflowID task) = eventTypes s (task_WorkflowID task) @ added
            \<and> added \<in> set [[], map fst (fst run) @ [EventActivityFailed],
                             EventActivityStarted # map fst (fst run) @ [EventActivityFailed]])
         \<and> (EventActivityRetrying \<notin> fst ` set (fst run) \<longrightarrow>
              count_list (eventTypes s' (task_WorkflowID task)) EventActivityRetrying
                = count_list (eventTypes s (task_WorkflowID task)) EventActivityRetrying)"
proof -
  from pollOnce_PollNack [OF assms]
  have s': "s' = snd (executeTask w s task now run)"
    and fail: "\<not> res_Success (fst (executeTask w s task now run))"
    by auto
  from executeTask_unsuccessful [OF fail] s'
  obtain added where
    eq: "eventTypes s' (task_WorkflowID task) = eventTypes s (task_WorkflowID task) @ added"
    and mem: "added \<in> set [[], map fst (fst run) @ [EventActivityFailed],
                             EventActivityStarted # map fst (fst run) @ [EventActivityFailed]]"
    by auto
  have cnt: "EventActivityRetrying \<notin> fst ` set (fst run) \<Longrightarrow>
               count_list added EventActivityRetrying = 0"
    using mem by (auto simp: count_list_0_iff)
  show ?thesis using eq mem cnt by auto
qed

text \<open>
  C7.  The claim says that a nack with \<^verbatim>\<open>requeue = true\<close> comes with an \<^verbatim>\<open>activity_retrying\<close>
  event in the workflow's log.  \<^verbatim>\<open>EventActivityRetrying\<close> is declared among the event types of
  \<^verbatim>\<open>state.go\<close> and \<^verbatim>\<open>docs/API.md\<close> lists \<^verbatim>\<open>activity_retrying\<close> among the events of a workflow, but
  \<^verbatim>\<open>pollOnce\<close> and \<^verbatim>\<open>executeActivity\<close> never append it.  The first delivery of the task of
  \<^verbatim>\<open>flaky\<close> fails, the worker nacks it with \<^verbatim>\<open>requeue = true\<close>, and the log of the workflow
  holds \<^verbatim>\<open>activity_started\<close> and \<^verbatim>\<open>activity_failed\<close> only.
\<close>

theorem pollOnce_requeue_without_retrying_event:
  "snd (pollOnce flaky_worker liveEnv liveEnv 100 ([], Inl ''transient'') (flaky_queue, NewInMemoryStore))
     = PollNack (flaky_task\<lparr>task_Attempts := 1\<rparr>)
         \<lparr>res_TaskID = ''t2'', res_WorkflowID = ''wf-2'', res_ActivityID = ''a2'',
          res_Success = False, res_Output = VNil, res_Error = ''transient''\<rparr>
         True None
   \<and> eventTypes (snd (fst (pollOnce flaky_worker liveEnv liveEnv 100 ([], Inl ''transient'')
         (flaky_queue, NewInMemoryStore)))) ''wf-2'' = [EventActivityStarted, EventActivityFailed]
   \<and> EventActivityRetrying \<notin> set (eventTypes (snd (fst (pollOnce flaky_worker liveEnv liveEnv 100
         ([], Inl ''transient'') (flaky_queue, NewInMemoryStore)))) ''wf-2'')"
proof -
  have a: "snd (pollOnce flaky_worker liveEnv liveEnv 100 ([], Inl ''transient'') (flaky_queue, NewInMemoryStore))
     = PollNack (flaky_task\<lparr>task_Attempts := 1\<rparr>)
         \<lparr>res_TaskID = ''t2'', res_WorkflowID = ''wf-2'', res_ActivityID = ''a2'',
          res_Success = False, res_Output = VNil, res_Error = ''transient''\<rparr>
         True None"
    by (subst flaky_poll_fails) simp
  show ?thesis using a by (simp add: flaky_poll_events)
qed

section \<open>Delivery of a task whose activity is already completed\<close>

lemma DequeueWithTimeout_head:
  assumes "\<not> closed q" "queues q name = Some (t # rest)" "pending q name = Some p"
    "selectReady True (0 < timeout \<and> env_timer env) (env_ctx env \<noteq> None) (env_pick env)
       = Some SelChannel"
  shows "DequeueWithTimeout q name timeout env now =
           (q\<lparr>queues := (queues q)(name \<mapsto> rest),
              pending := (pending q)(name \<mapsto> p(task_ID t \<mapsto>
                 \<lparr>pr_task = t\<lparr>task_Attempts := wrapInt (task_Attempts t + 1)\<rparr>,
                  pr_deadline = now + (if VisibilityTimeout (opts q) \<le> 0 then 30 * second
                                       else VisibilityTimeout (opts q))\<rparr>))\<rparr>,
            Inr (t\<lparr>task_Attempts := wrapInt (task_Attempts t + 1)\<rparr>))"
  using assms
  by (simp add: DequeueWithTimeout_def getOrCreateQueue_def addPending_def Let_def)

lemma Ack_after_dequeue:
  "Ack (q\<lparr>queues := qs, pending := (pending q)(name \<mapsto> p(i \<mapsto> rec))\<rparr>) name i
     = (q\<lparr>queues := qs, pending := (pending q)(name \<mapsto> p(i := None))\<rparr>, None)"
  by (simp add: Ack_def removePending_def)

lemma executeActivity_completed_store:
  assumes "activities s (task_ActivityID task) = Some st" "act_Status st = StatusCompleted"
  shows "snd (executeActivity w s task now run) = s"
  using assms
  by (simp add: executeActivity_def GetActivityState_def Let_def split: sum.splits)

lemma executeActivity_completed_result:
  assumes "activities s (task_ActivityID task) = Some st" "act_Status st = StatusCompleted"
    "w_activityRegistry w (task_ActivityName task) = Some info"
  shows "executeActivity w s task now run
           = ((newResult task)\<lparr>res_Success := True, res_Output := act_Output st\<rparr>, s)"
  using assms
  by (simp add: executeActivity_def GetActivityState_def Registry_Get_def Let_def)

lemma executeActivity_unregistered:
  assumes "w_activityRegistry w (task_ActivityName task) = None"
  shows "executeActivity w s task now run
           = ((newResult task)\<lparr>res_Error := ''activity not found: activity ''
                                    @ task_ActivityName task @ '' not found''\<rparr>, s)"
  using assms
  by (simp add: executeActivity_def Registry_Get_def Let_def)

lemma pollOnce_store:
  "DequeueWithTimeout q (w_queueName w) (w_pollInterval w) deqEnv now = (q1, Inr task) \<Longrightarrow>
   snd (fst (pollOnce w deqEnv nackEnv now run (q, s))) = snd (executeTask w s task now run)"
  by (simp add: pollOnce_def Let_def split: prod.splits)

lemma ghost_dequeue:
  "DequeueWithTimeout ghost_queue ''default'' second liveEnv 100
     = (\<lparr>queues = [''default'' \<mapsto> []],
         pending = [''default'' \<mapsto> [''t2'' \<mapsto>
            \<lparr>pr_task = ghost_task\<lparr>task_Attempts := 1\<rparr>, pr_deadline = 100 + 30 * second\<rparr>]],
         dlq = [''default'' \<mapsto> []], closed = False,
         opts = \<lparr>VisibilityTimeout = 30 * second, EnableDLQ = False\<rparr>\<rparr>,
        Inr (ghost_task\<lparr>task_Attempts := 1\<rparr>))"
  by (simp add: DequeueWithTimeout_def ghost_queue_eq getOrCreateQueue_def addPending_def
      selectReady_def liveEnv_fields wrapInt_def ghost_task_def flaky_task_def Let_def)

text \<open>
  C3, as the claim states it: every delivery of an activity task whose activity id has a
  completed state returns the cached output as a success and is acked.  It fails when the
  task names an activity the worker has not registered: \<^verbatim>\<open>executeActivity\<close> looks the name up
  before it reads the activity state, so the result is a failure (\<^verbatim>\<open>activity not found\<close>) and
  the task is nacked, here with \<^verbatim>\<open>requeue = true\<close>.
\<close>

theorem pollOnce_completed_unregistered_nacked:
  "map_sum id act_Status (GetActivityState dup_store (task_ActivityID ghost_task))
     = Inr StatusCompleted
   \<and> snd (pollOnce flaky_worker liveEnv liveEnv 100 ([], Inr (VInt 7)) (ghost_queue, dup_store))
       = PollNack (ghost_task\<lparr>task_Attempts := 1\<rparr>)
           \<lparr>res_TaskID = ''t2'', res_WorkflowID = ''wf-2'', res_ActivityID = ''a2'',
            res_Success = False, res_Output = VNil,
            res_Error = ''activity not found: activity echo not found''\<rparr>
           True None"
  by (simp add: pollOnce_def ghost_dequeue flaky_worker_def flaky_registry_eq executeTask_def
      executeActivity_def Registry_Get_def GetActivityState_def dup_store_def dup_state_def
      NewInMemoryStore_def newResult_def SaveActivityState_def Nack_def removePending_def
      Enqueue_def getOrCreateQueue_def selectReady_def liveEnv_fields ghost_task_def
      flaky_task_def Let_def)

text \<open>
  C3, amended.  Take a delivery of an activity task whose activity id has a completed
  state: the task is the head of the worker's queue and the \<^verbatim>\<open>select\<close> of the dequeue takes it
  from the channel (as it does whenever the context is live and the timer has not fired).
  The delivery leaves the store as it is, whatever the activity would have done: no event
  is appended and no activity state changes.  When the task's activity name is registered
  with the worker, the result is a success carrying the cached output and the worker acks
  the task, which leaves the inflight set; the execution of the activity plays no part.
  When the name is not registered, the result is the failure \<^verbatim>\<open>activity not found\<close> and the
  worker nacks the task, with \<^verbatim>\<open>requeue\<close> true exactly when the task's \<^verbatim>\<open>Attempts\<close> is below 3.
  (The queue is open and has its inflight map, as every queue made by \<^verbatim>\<open>getOrCreateQueue\<close>
  has; \<open>now\<close> is the time of the dequeue; the task delivered is the task of the queue with
  \<^verbatim>\<open>Attempts\<close> incremented as a Go \<^verbatim>\<open>int\<close>.)
\<close>

theorem pollOnce_completed_is_cached:
  assumes "\<not> closed q"
    and "queues q (w_queueName w) = Some (t # rest)"
    and "pending q (w_queueName w) = Some p"
    and "selectReady True (0 < w_pollInterval w \<and> env_timer deqEnv) (env_ctx deqEnv \<noteq> None)
           (env_pick deqEnv) = Some SelChannel"
    and "task_Type t = TaskTypeActivity"
    and "activities s (task_ActivityID t) = Some st"
    and "act_Status st = StatusCompleted"
    and "t' = t\<lparr>task_Attempts := wrapInt (task_Attempts t + 1)\<rparr>"
    and "q1 = fst (DequeueWithTimeout q (w_queueName w) (w_pollInterval w) deqEnv now)"
  shows "snd (fst (pollOnce w deqEnv nackEnv now run (q, s))) = s
         \<and> snd (DequeueWithTimeout q (w_queueName w) (w_pollInterval w) deqEnv now) = Inr t'
         \<and> (w_activityRegistry w (task_ActivityName t) \<noteq> None \<longrightarrow>
              pollOnce w deqEnv nackEnv now run (q, s)
                = ((q\<lparr>queues := (queues q)(w_queueName w \<mapsto> rest),
                      pending := (pending q)(w_queueName w \<mapsto> p(task_ID t := None))\<rparr>, s),
                   PollAck t'
                     \<lparr>res_TaskID = task_ID t, res_WorkflowID = task_WorkflowID t,
                      res_ActivityID = task_ActivityID t, res_Success = True,
                      res_Output = act_Output st, res_Error = ''''\<rparr>
                     None))
         \<and> (w_activityRegistry w (task_ActivityName t) = None \<longrightarrow>
              pollOnce w deqEnv nackEnv now run (q, s)
                = ((fst (Nack q1 (w_queueName w) (task_ID t) (task_Attempts t' < 3) nackEnv), s),
                   PollNack t'
                     \<lparr>res_TaskID = task_ID t, res_WorkflowID = task_WorkflowID t,
                      res_ActivityID = task_ActivityID t, res_Success = False,
                      res_Output = VNil,
                      res_Error = ''activity not found: activity '' @ task_ActivityName t
                                  @ '' not found''\<rparr>
                     (task_Attempts t' < 3)
                     (snd (Nack q1 (w_queueName w) (task_ID t) (task_Attempts t' < 3) nackEnv))))"
proof -
  note deq = DequeueWithTimeout_head [OF assms(1,2,3,4), of now]
  have deq': "DequeueWithTimeout q (w_queueName w) (w_pollInterval w) deqEnv now = (q1, Inr t')"
    using deq assms(8,9) by simp
  have act: "activities s (task_ActivityID t') = Some st" using assms(6,8) by simp
  have ty: "task_Type t' = TaskTypeActivity" using assms(5,8) by simp
  have store: "snd (fst (pollOnce w deqEnv nackEnv now run (q, s))) = s"
    using pollOnce_store [OF deq', of nackEnv run s]
      executeActivity_completed_store [OF act assms(7), of w now run] ty
    by (simp add: executeTask_def)
  have ack: "w_activityRegistry w (task_ActivityName t) \<noteq> None \<Longrightarrow>
      pollOnce w deqEnv nackEnv now run (q, s)
        = ((q\<lparr>queues := (queues q)(w_queueName w \<mapsto> rest),
              pending := (pending q)(w_queueName w \<mapsto> p(task_ID t := None))\<rparr>, s),
           PollAck t'
             \<lparr>res_TaskID = task_ID t, res_WorkflowID = task_WorkflowID t,
              res_ActivityID = task_ActivityID t, res_Success = True,
              res_Output = act_Output st, res_Error = ''''\<rparr>
             None)"
  proof -
    assume "w_activityRegistry w (task_ActivityName t) \<noteq> None"
    then obtain info where reg: "w_activityRegistry w (task_ActivityName t') = Some info"
      using assms(8) by auto
    show ?thesis
      using deq assms(8) executeActivity_completed_result [OF act assms(7) reg, of now run] ty
      by (simp add: pollOnce_def executeTask_def Ack_after_dequeue newResult_def)
  qed
  have nack: "w_activityRegistry w (task_ActivityName t) = None \<Longrightarrow>
      pollOnce w deqEnv nackEnv now run (q, s)
        = ((fst (Nack q1 (w_queueName w) (task_ID t) (task_Attempts t' < 3) nackEnv), s),
           PollNack t'
             \<lparr>res_TaskID = task_ID t, res_WorkflowID = task_WorkflowID t,
              res_ActivityID = task_ActivityID t, res_Success = False,
              res_Output = VNil,
              res_Error = ''activity not found: activity '' @ task_ActivityName t
                          @ '' not found''\<rparr>
             (task_Attempts t' < 3)
             (snd (Nack q1 (w_queueName w) (task_ID t) (task_Attempts t' < 3) nackEnv)))"
  proof -
    assume "w_activityRegistry w (task_ActivityName t) = None"
    then have reg: "w_activityRegistry w (task_ActivityName t') = None"
      using assms(8) by simp
    have id: "task_ID t' = task_ID t" using assms(8) by simp
    show ?thesis
      using deq' executeActivity_unregistered [OF reg, of s now run] ty id assms(8)
      by (simp add: pollOnce_def executeTask_def newResult_def Let_def split_beta)
  qed
  from store deq' ack nack show ?thesis by simp
qed

theorem pollOnce_completed_is_cached_witness:
  "\<not> closed flaky_queue
   \<and> queues flaky_queue (w_queueName flaky_worker) = Some (flaky_task # [])
   \<and> pending flaky_queue (w_queueName flaky_worker) = Some Map.empty
   \<and> selectReady True (0 < w_pollInterval flaky_worker \<and> env_timer liveEnv)
        (env_ctx liveEnv \<noteq> None) (env_pick liveEnv) = Some SelChannel
   \<and> task_Type flaky_task = TaskTypeActivity
   \<and> activities dup_store (task_ActivityID flaky_task) = Some dup_state
   \<and> act_Status dup_state = StatusCompleted
   \<and> w_activityRegistry flaky_worker (task_ActivityName flaky_task) \<noteq> None
   \<and> snd (fst (pollOnce flaky_worker liveEnv liveEnv 100 ([], Inl ''transient'')
               (flaky_queue, dup_store))) = dup_store
   \<and> snd (pollOnce flaky_worker liveEnv liveEnv 100 ([], Inl ''transient'') (flaky_queue, dup_store))
       = PollAck (flaky_task\<lparr>task_Attempts := 1\<rparr>)
           \<lparr>res_TaskID = ''t2'', res_WorkflowID = ''wf-2'', res_ActivityID = ''a2'',
            res_Success = True, res_Output = VInt 42, res_Error = ''''\<rparr>
           None
   \<and> queues ghost_queue (w_queueName flaky_worker) = Some (ghost_task # [])
   \<and> pending ghost_queue (w_queueName flaky_worker) = Some Map.empty
   \<and> activities dup_store (task_ActivityID ghost_task) = Some dup_state
   \<and> w_activityRegistry flaky_worker (task_ActivityName ghost_task) = None
   \<and> snd (fst (pollOnce flaky_worker liveEnv liveEnv 100 ([], Inr (VInt 7))
               (ghost_queue, dup_store))) = dup_store
   \<and> snd (pollOnce flaky_worker liveEnv liveEnv 100 ([], Inr (VInt 7)) (ghost_queue, dup_store))
       = PollNack (ghost_task\<lparr>task_Attempts := 1\<rparr>)
           \<lparr>res_TaskID = ''t2'', res_WorkflowID = ''wf-2'', res_ActivityID = ''a2'',
            res_Success = False, res_Output = VNil,
            res_Error = ''activity not found: activity echo not found''\<rparr>
           True None"
proof -
  have h1: "\<not> closed flaky_queue" by (simp add: flaky_queue_eq)
  have h2: "queues flaky_queue (w_queueName flaky_worker) = Some (flaky_task # [])"
    by (simp add: flaky_queue_eq flaky_worker_def)
  have h3: "pending flaky_queue (w_queueName flaky_worker) = Some Map.empty"
    by (simp add: flaky_queue_eq flaky_worker_def)
  have hs: "selectReady True (0 < w_pollInterval flaky_worker \<and> env_timer liveEnv)
        (env_ctx liveEnv \<noteq> None) (env_pick liveEnv) = Some SelChannel"
    by (simp add: liveEnv_fields selectReady_channel_only)
  have h4: "task_Type flaky_task = TaskTypeActivity" by (simp add: flaky_task_def)
  have h5: "activities dup_store (task_ActivityID flaky_task) = Some dup_state"
    by (simp add: dup_store_def SaveActivityState_def dup_state_def flaky_task_def)
  have h6: "act_Status dup_state = StatusCompleted" by (simp add: dup_state_def)
  have h7: "w_activityRegistry flaky_worker (task_ActivityName flaky_task) \<noteq> None"
    by (simp add: flaky_worker_def flaky_registry_eq flaky_task_def)
  have g1: "\<not> closed ghost_queue" by (simp add: ghost_queue_eq)
  have g2: "queues ghost_queue (w_queueName flaky_worker) = Some (ghost_task # [])"
    by (simp add: ghost_queue_eq flaky_worker_def)
  have g3: "pending ghost_queue (w_queueName flaky_worker) = Some Map.empty"
    by (simp add: ghost_queue_eq flaky_worker_def)
  have g4: "task_Type ghost_task = TaskTypeActivity" by (simp add: ghost_task_def flaky_task_def)
  have g5: "activities dup_store (task_ActivityID ghost_task) = Some dup_state"
    by (simp add: dup_store_def SaveActivityState_def dup_state_def ghost_task_def flaky_task_def)
  have g7: "w_activityRegistry flaky_worker (task_ActivityName ghost_task) = None"
    by (simp add: flaky_worker_def flaky_registry_eq ghost_task_def flaky_task_def)
  have v: "task_ID flaky_task = ''t2'' \<and> task_WorkflowID flaky_task = ''wf-2''
           \<and> task_ActivityID flaky_task = ''a2'' \<and> task_Attempts flaky_task = 0
           \<and> act_Output dup_state = VInt 42"
    by (simp add: flaky_task_def dup_state_def)
  have vg: "task_ID ghost_task = ''t2'' \<and> task_WorkflowID ghost_task = ''wf-2''
           \<and> task_ActivityID ghost_task = ''a2'' \<and> task_Attempts ghost_task = 0
           \<and> task_ActivityName ghost_task = ''echo''"
    by (simp add: ghost_task_def flaky_task_def)
  have w1: "wrapInt 1 = 1" by (simp add: wrapInt_id)
  from pollOnce_completed_is_cached [OF h1 h2 h3 hs h4 h5 h6 refl refl,
      of liveEnv 100 "([], Inl ''transient'')"] h7 v w1
  have a: "snd (fst (pollOnce flaky_worker liveEnv liveEnv 100 ([], Inl ''transient'')
               (flaky_queue, dup_store))) = dup_store
        \<and> snd (pollOnce flaky_worker liveEnv liveEnv 100 ([], Inl ''transient'')
               (flaky_queue, dup_store))
          = PollAck (flaky_task\<lparr>task_Attempts := 1\<rparr>)
              \<lparr>res_TaskID = ''t2'', res_WorkflowID = ''wf-2'', res_ActivityID = ''a2'',
               res_Success = True, res_Output = VInt 42, res_Error = ''''\<rparr>
              None"
    by simp
  have nk: "snd (Nack (fst (DequeueWithTimeout ghost_queue ''default'' second liveEnv 100))
                   ''default'' ''t2'' True liveEnv) = None"
    by (simp add: ghost_dequeue Nack_def removePending_def Enqueue_def getOrCreateQueue_def
        selectReady_def liveEnv_fields)
  from pollOnce_completed_is_cached [OF g1 g2 g3 hs g4 g5 h6 refl refl,
      of liveEnv 100 "([], Inr (VInt 7))"] g7 vg w1 nk
  have b: "snd (fst (pollOnce flaky_worker liveEnv liveEnv 100 ([], Inr (VInt 7))
               (ghost_queue, dup_store))) = dup_store
        \<and> snd (pollOnce flaky_worker liveEnv liveEnv 100 ([], Inr (VInt 7))
               (ghost_queue, dup_store))
          = PollNack (ghost_task\<lparr>task_Attempts := 1\<rparr>)
              \<lparr>res_TaskID = ''t2'', res_WorkflowID = ''wf-2'', res_ActivityID = ''a2'',
               res_Success = False, res_Output = VNil,
               res_Error = ''activity not found: activity echo not found''\<rparr>
              True None"
    by (simp add: flaky_worker_def)
  from a b h1 h2 h3 hs h4 h5 h6 h7 g2 g3 g5 g7 show ?thesis by blast
qed

section \<open>Idempotent start\<close>

lemma idemKeys_apply_op:
  "idemKeys s K = Some w \<Longrightarrow> idemKeys (apply_op s op) K = Some w"
  by (cases op)
     (auto simp: SaveWorkflowState_def AppendEvent_def SaveActivityState_def DeleteWorkflow_def
        MapIdempotencyKeyToWorkflow_def ScheduleTimer_def MarkTimerFired_def Let_def
        split: option.splits)

lemma idemKeys_run_ops:
  "idemKeys s K = Some w \<Longrightarrow> idemKeys (run_ops s ops) K = Some w"
  unfolding run_ops_def
  by (induction ops arbitrary: s) (simp_all add: idemKeys_apply_op)

lemma Start_mapped_state:
  assumes "IdempotencyKey options = K" "K \<noteq> ''''" "idemKeys (stateStore e) K = Some w"
  shows "snd (StartWorkflowWithOptions e now newID name input options) = e"
  using assms
  by (simp add: StartWorkflowWithOptions_def MapIdempotencyKeyToWorkflow_def Let_def
      split: sum.splits)

lemma Start_mapped_result:
  assumes "IdempotencyKey options = K" "K \<noteq> ''''" "idemKeys (stateStore e) K = Some w"
    "workflowRegistry e name = Some d"
  shows "StartWorkflowWithOptions e now newID name input options = (Inr w, e)"
  using assms
  by (simp add: StartWorkflowWithOptions_def MapIdempotencyKeyToWorkflow_def
      workflowRegistry_Get_def Let_def)

lemma Start_unregistered:
  assumes "workflowRegistry e name = None"
  shows "StartWorkflowWithOptions e now newID name input options
           = (Inl (''workflow not found: workflow '' @ name @ '' not found''), e)"
  using assms
  by (simp add: StartWorkflowWithOptions_def workflowRegistry_Get_def)

lemma Start_unmapped:
  assumes "IdempotencyKey options = K" "K \<noteq> ''''" "idemKeys (stateStore e) K = None"
    "workflowRegistry e name = Some d"
  shows "fst (StartWorkflowWithOptions e now newID name input options) = Inr newID
         \<and> idemKeys (stateStore (snd (StartWorkflowWithOptions e now newID name input options))) K
             = Some newID"
  using assms
  by (simp add: StartWorkflowWithOptions_def MapIdempotencyKeyToWorkflow_def
      workflowRegistry_Get_def SaveWorkflowState_def AppendEvent_def Let_def)

lemma idem_engine_key: "idemKeys (stateStore idem_engine) ''K'' = Some ''wf-1''"
  by (simp add: idem_engine_def race_engine0_def StartWorkflowWithOptions_def
      MapIdempotencyKeyToWorkflow_def workflowRegistry_Get_def SaveWorkflowState_def
      AppendEvent_def NewInMemoryStore_def Let_def)

lemma idem_engine_registry:
  "workflowRegistry idem_engine ''demo'' \<noteq> None \<and> workflowRegistry idem_engine ''ghost'' = None"
  by (simp add: idem_engine_def race_engine0_def StartWorkflowWithOptions_def
      MapIdempotencyKeyToWorkflow_def workflowRegistry_Get_def SaveWorkflowState_def
      AppendEvent_def NewInMemoryStore_def Let_def)

text \<open>
  C2, as the claim states it: every call of \<^verbatim>\<open>StartWorkflowWithOptions\<close> with a non-empty key that
  is already mapped returns the mapped workflow id.  It fails when the call names a
  workflow that is not registered: the definition is resolved before the key is looked at,
  so the call returns the error \<^verbatim>\<open>workflow not found\<close> although \<^verbatim>\<open>K\<close> is mapped to \<^verbatim>\<open>wf-1\<close>.
\<close>

theorem StartWorkflowWithOptions_mapped_key_unregistered:
  "idemKeys (stateStore idem_engine) ''K'' = Some ''wf-1''
   \<and> fst (StartWorkflowWithOptions idem_engine 20 ''wf-2'' ''ghost'' (VStr ''in'')
            \<lparr>IdempotencyKey = ''K''\<rparr>)
       = Inl ''workflow not found: workflow ghost not found''"
  using idem_engine_registry
  by (simp add: idem_engine_key StartWorkflowWithOptions_def workflowRegistry_Get_def)

text \<open>
  C2, amended.  For a call of \<^verbatim>\<open>StartWorkflowWithOptions\<close> with a non-empty idempotency key \<open>K\<close>:
  if \<open>K\<close> is already mapped, the engine and its store are left exactly as they were (no
  new workflow state, no new event, no driver launched), and when the workflow name is
  registered the call returns the mapped workflow id; if \<open>K\<close> is not mapped and the name is
  registered, the call returns the fresh id and \<open>K\<close> is mapped to it.  When the workflow
  name is not registered the call returns the error \<^verbatim>\<open>workflow not found\<close> and leaves the
  engine as it was, whether \<open>K\<close> is mapped or not: the name is resolved before the key is
  looked at.
  \<^verbatim>\<open>MapIdempotencyKeyToWorkflow\<close> on an unmapped key creates the mapping and returns
  \<^verbatim>\<open>(true, "")\<close>; on a mapped key it returns \<^verbatim>\<open>(false, existing)\<close> and changes nothing.  A key once
  mapped stays mapped to the same workflow id through every later call on the store.
\<close>

theorem StartWorkflowWithOptions_idempotent:
  assumes "IdempotencyKey options = K" and "K \<noteq> ''''"
  shows "(idemKeys (stateStore e) K = Some w \<longrightarrow>
            snd (StartWorkflowWithOptions e now newID name input options) = e)
         \<and> (idemKeys (stateStore e) K = Some w \<and> workflowRegistry e name \<noteq> None \<longrightarrow>
            StartWorkflowWithOptions e now newID name input options = (Inr w, e))
         \<and> (workflowRegistry e name = None \<longrightarrow>
            StartWorkflowWithOptions e now newID name input options
              = (Inl (''workflow not found: workflow '' @ name @ '' not found''), e))
         \<and> (idemKeys (stateStore e) K = None \<and> workflowRegistry e name \<noteq> None \<longrightarrow>
            fst (StartWorkflowWithOptions e now newID name input options) = Inr newID
            \<and> idemKeys (stateStore (snd (StartWorkflowWithOptions e now newID name input options))) K
                = Some newID)
         \<and> (idemKeys s K = None \<longrightarrow>
            MapIdempotencyKeyToWorkflow s K newID
              = (s\<lparr>idemKeys := (idemKeys s)(K \<mapsto> newID)\<rparr>, True, ''''))
         \<and> (idemKeys s K = Some w \<longrightarrow>
            MapIdempotencyKeyToWorkflow s K newID = (s, False, w)
            \<and> idemKeys (run_ops s ops) K = Some w)"
proof -
  have a: "idemKeys (stateStore e) K = Some w \<Longrightarrow>
             snd (StartWorkflowWithOptions e now newID name input options) = e"
    using Start_mapped_state [OF assms] .
  have b: "idemKeys (stateStore e) K = Some w \<and> workflowRegistry e name \<noteq> None \<Longrightarrow>
             StartWorkflowWithOptions e now newID name input options = (Inr w, e)"
    using Start_mapped_result [OF assms] by auto
  have u: "workflowRegistry e name = None \<Longrightarrow>
             StartWorkflowWithOptions e now newID name input options
               = (Inl (''workflow not found: workflow '' @ name @ '' not found''), e)"
    using Start_unregistered .
  have c: "idemKeys (stateStore e) K = None \<and> workflowRegistry e name \<noteq> None \<Longrightarrow>
             fst (StartWorkflowWithOptions e now newID name input options) = Inr newID
             \<and> idemKeys (stateStore (snd (StartWorkflowWithOptions e now newID name input options))) K
                 = Some newID"
    using Start_unmapped [OF assms] by auto
  have d: "idemKeys s K = None \<Longrightarrow>
             MapIdempotencyKeyToWorkflow s K newID
               = (s\<lparr>idemKeys := (idemKeys s)(K \<mapsto> newID)\<rparr>, True, '''')"
    by (simp add: MapIdempotencyKeyToWorkflow_def)
  have f: "idemKeys s K = Some w \<Longrightarrow>
             MapIdempotencyKeyToWorkflow s K newID = (s, False, w)
             \<and> idemKeys (run_ops s ops) K = Some w"
    by (simp add: MapIdempotencyKeyToWorkflow_def idemKeys_run_ops)
  from a b u c d f show ?thesis by blast
qed

theorem StartWorkflowWithOptions_idempotent_witness:
  "IdempotencyKey \<lparr>IdempotencyKey = ''K''\<rparr> = ''K'' \<and> ''K'' \<noteq> ''''
   \<and> idemKeys (stateStore idem_engine) ''K'' = Some ''wf-1''
   \<and> workflowRegistry idem_engine ''demo'' \<noteq> None
   \<and> StartWorkflowWithOptions idem_engine 20 ''wf-2'' ''demo'' (VStr ''other'')
        \<lparr>IdempotencyKey = ''K''\<rparr> = (Inr ''wf-1'', idem_engine)
   \<and> workflowRegistry idem_engine ''ghost'' = None
   \<and> StartWorkflowWithOptions idem_engine 20 ''wf-2'' ''ghost'' (VStr ''other'')
        \<lparr>IdempotencyKey = ''K''\<rparr>
       = (Inl ''workflow not found: workflow ghost not found'', idem_engine)
   \<and> idemKeys NewInMemoryStore ''K'' = None
   \<and> MapIdempotencyKeyToWorkflow NewInMemoryStore ''K'' ''wf-2''
       = (NewInMemoryStore\<lparr>idemKeys := (idemKeys NewInMemoryStore)(''K'' \<mapsto> ''wf-2'')\<rparr>, True, '''')
   \<and> MapIdempotencyKeyToWorkflow (stateStore idem_engine) ''K'' ''wf-2''
       = (stateStore idem_engine, False, ''wf-1'')
   \<and> idemKeys (run_ops (stateStore idem_engine)
         [OpMapIdempotencyKey ''K'' ''wf-2'', OpDeleteWorkflow ''wf-1'']) ''K'' = Some ''wf-1''
   \<and> idemKeys (stateStore race_engine0) ''K'' = None
   \<and> workflowRegistry race_engine0 ''demo'' \<noteq> None
   \<and> fst (StartWorkflowWithOptions race_engine0 10 ''wf-1'' ''demo'' (VStr ''in'')
            \<lparr>IdempotencyKey = ''K''\<rparr>) = Inr ''wf-1''"
proof -
  have h1: "IdempotencyKey \<lparr>IdempotencyKey = ''K''\<rparr> = ''K''" by simp
  have h2: "''K'' \<noteq> ''''" by simp
  have h3: "idemKeys NewInMemoryStore ''K'' = None" by (simp add: NewInMemoryStore_def)
  note t1 = StartWorkflowWithOptions_idempotent [OF h1 h2, of idem_engine "''wf-1''" 20 "''wf-2''"
      "''demo''" "VStr ''other''" NewInMemoryStore]
  note t2 = StartWorkflowWithOptions_idempotent [OF h1 h2, of idem_engine "''wf-1''" 20 "''wf-2''"
      "''demo''" "VStr ''other''" "stateStore idem_engine"
      "[OpMapIdempotencyKey ''K'' ''wf-2'', OpDeleteWorkflow ''wf-1'']"]
  have h4: "idemKeys (stateStore race_engine0) ''K'' = None
            \<and> workflowRegistry race_engine0 ''demo'' \<noteq> None"
    by (simp add: race_engine0_def NewInMemoryStore_def)
  note t3 = StartWorkflowWithOptions_idempotent [OF h1 h2, of race_engine0 "''wf-1''" 10 "''wf-1''"
      "''demo''" "VStr ''in''" NewInMemoryStore]
  note t4 = StartWorkflowWithOptions_idempotent [OF h1 h2, of idem_engine "''wf-1''" 20 "''wf-2''"
      "''ghost''" "VStr ''other''" NewInMemoryStore]
  have g: "StartWorkflowWithOptions idem_engine 20 ''wf-2'' ''ghost'' (VStr ''other'')
        \<lparr>IdempotencyKey = ''K''\<rparr>
       = (Inl ''workflow not found: workflow ghost not found'', idem_engine)"
    using t4 idem_engine_registry by simp
  from t1 t2 t3 g h3 h4 idem_engine_key idem_engine_registry show ?thesis by simp
qed

section \<open>Dequeue, visibility and the scanner\<close>

lemma inflight_Some:
  "inflight q name i = Some rec \<Longrightarrow> \<exists>p. pending q name = Some p \<and> p i = Some rec"
  by (simp add: inflight_def split: option.splits)

lemma scanVisit_visible:
  assumes "inflight q name i = Some rec" "now' \<le> pr_deadline rec"
  shows "scanVisit now' q (name, i) = q"
proof -
  from inflight_Some [OF assms(1)] obtain p where "pending q name = Some p" "p i = Some rec"
    by blast
  with assms(2) show ?thesis by (simp add: scanVisit_def)
qed

lemma inflight_scanVisit_other:
  assumes "inflight q name i = Some rec" "(n, j) \<noteq> (name, i)"
  shows "inflight (scanVisit now' q (n, j)) name i = Some rec"
proof -
  from inflight_Some [OF assms(1)] obtain p where p: "pending q name = Some p" "p i = Some rec"
    by blast
  show ?thesis
  proof (cases "pending q n")
    case None
    with assms(1) show ?thesis by (simp add: scanVisit_def)
  next
    case (Some infl)
    show ?thesis
    proof (cases "infl j")
      case None
      with Some assms(1) show ?thesis by (simp add: scanVisit_def)
    next
      case (Some r)
      with \<open>pending q n = Some infl\<close> p assms(2) show ?thesis
        by (cases "queues q n") (auto simp: scanVisit_def inflight_def)
    qed
  qed
qed

lemma inflight_scanVisit:
  assumes "inflight q name i = Some rec" "now' \<le> pr_deadline rec"
  shows "inflight (scanVisit now' q key) name i = Some rec"
proof (cases key)
  case (Pair n j)
  show ?thesis
  proof (cases "(n, j) = (name, i)")
    case True
    with Pair assms scanVisit_visible [OF assms] show ?thesis by simp
  next
    case False
    with Pair inflight_scanVisit_other [OF assms(1) False] show ?thesis by simp
  qed
qed

lemma inflight_scanOnce:
  assumes "inflight q name i = Some rec" "now' \<le> pr_deadline rec"
  shows "inflight (scanOnce now' order q) name i = Some rec"
  using assms unfolding scanOnce_def
  by (induction order arbitrary: q) (simp_all add: inflight_scanVisit)

lemma DequeueWithTimeout_empty_timer:
  assumes "\<not> closed q" "queues q name = None \<or> queues q name = Some []" "0 < timeout"
    "env_timer env" "env_ctx env = None"
  shows "snd (DequeueWithTimeout q name timeout env now) = Inl DequeueTimeout"
  using assms
  by (auto simp: DequeueWithTimeout_def getOrCreateQueue_def selectReady_timer_only
      split: option.splits)

lemma DequeueWithTimeout_empty_done:
  assumes "\<not> closed q" "queues q name = None \<or> queues q name = Some []"
    "timeout \<le> 0 \<or> \<not> env_timer env" "env_ctx env = Some err"
  shows "snd (DequeueWithTimeout q name timeout env now) = Inl (ContextDone err)"
  using assms
  by (auto simp: DequeueWithTimeout_def getOrCreateQueue_def selectReady_done_only ctxError_def
      split: option.splits)

lemma selectReady_live:
  assumes "env_ctx env = None" "(timeout::duration) \<le> 0 \<or> \<not> env_timer env"
  shows "selectReady True (0 < timeout \<and> env_timer env) (env_ctx env \<noteq> None) (env_pick env)
           = Some SelChannel"
proof -
  from assms(2) have "\<not> (0 < timeout \<and> env_timer env)" by auto
  then have "(0 < timeout \<and> env_timer env) = False" by blast
  with assms(1) show ?thesis by (simp only: selectReady_channel_only simp_thms)
qed

lemma zerovis_queue_eq:
  "zerovis_queue =
     \<lparr>queues = [''default'' \<mapsto> [flaky_task]], pending = [''default'' \<mapsto> Map.empty],
      dlq = [''default'' \<mapsto> []], closed = False,
      opts = \<lparr>VisibilityTimeout = 0, EnableDLQ = True\<rparr>\<rparr>"
  by (simp add: zerovis_queue_def Enqueue_def NewInMemoryQueueWithOptions_def getOrCreateQueue_def
      selectReady_def liveEnv_fields)

lemma negvis_queue_eq:
  "negvis_queue =
     \<lparr>queues = [''default'' \<mapsto> [flaky_task]], pending = [''default'' \<mapsto> Map.empty],
      dlq = [''default'' \<mapsto> []], closed = False,
      opts = \<lparr>VisibilityTimeout = - 5 * second, EnableDLQ = False\<rparr>\<rparr>"
  by (simp add: negvis_queue_def Enqueue_def NewInMemoryQueueWithOptions_def getOrCreateQueue_def
      selectReady_def liveEnv_fields)

lemma maxed_queue_eq:
  "maxed_queue =
     \<lparr>queues = [''default'' \<mapsto> [maxed_task]], pending = [''default'' \<mapsto> Map.empty],
      dlq = [''default'' \<mapsto> []], closed = False,
      opts = \<lparr>VisibilityTimeout = 30 * second, EnableDLQ = False\<rparr>\<rparr>"
  by (simp add: maxed_queue_def Enqueue_def NewInMemoryQueue_def NewInMemoryQueueWithOptions_def
      getOrCreateQueue_def selectReady_def liveEnv_fields)

lemma canceled_dequeue:
  "DequeueWithTimeout flaky_queue ''default'' second canceledEnv 100
     = (flaky_queue, Inl (ContextDone ''context canceled''))"
  by (simp add: flaky_queue_eq DequeueWithTimeout_def getOrCreateQueue_def selectReady_def
      canceledEnv_def ctxError_def)

lemma zerovis_dequeue:
  "map_option pr_deadline
     (inflight (fst (DequeueWithTimeout zerovis_queue ''default'' second liveEnv 100))
        ''default'' ''t2'') = Some (100 + 30 * second)"
  by (simp add: zerovis_queue_eq DequeueWithTimeout_def getOrCreateQueue_def addPending_def
      selectReady_def liveEnv_fields inflight_def flaky_task_def Let_def)

lemma negvis_dequeue:
  "map_option pr_deadline
     (inflight (fst (DequeueWithTimeout negvis_queue ''default'' second liveEnv 100))
        ''default'' ''t2'') = Some (100 + 30 * second)"
  by (simp add: negvis_queue_eq DequeueWithTimeout_def getOrCreateQueue_def addPending_def
      selectReady_def liveEnv_fields inflight_def flaky_task_def Let_def)

lemma maxed_dequeue:
  "snd (DequeueWithTimeout maxed_queue ''default'' second liveEnv 100)
     = Inr (flaky_task\<lparr>task_Attempts := - (2 ^ 63)\<rparr>)"
  by (simp add: maxed_queue_eq DequeueWithTimeout_def getOrCreateQueue_def addPending_def
      selectReady_def liveEnv_fields maxed_task_def wrapInt_def Let_def)

text \<open>
  C8, as the claim states it: \<^verbatim>\<open>DequeueWithTimeout\<close> returns the next ready task, or nil when the
  timeout elapses with no task available, and a task returned has its \<^verbatim>\<open>Attempts\<close> incremented
  and the visibility deadline of the time of the dequeue plus the configured visibility
  timeout.  Four calls show where it fails.  With a task ready and a context that is done,
  the \<^verbatim>\<open>select\<close> may take \<^verbatim>\<open>ctx.Done()\<close>: the call returns the context's error, neither the
  ready task nor a timeout, and the task stays in the queue.  On a queue made with
  \<^verbatim>\<open>Options{EnableDLQ: true}\<close> the configured visibility timeout is the zero value and a
  dequeue at time 100 gives the deadline 100 plus 30 seconds, not 100; with a configured
  timeout of minus 5 seconds the deadline is again 100 plus 30 seconds.  A task whose
  \<^verbatim>\<open>Attempts\<close> is \<open>2^63 - 1\<close> comes back with \<^verbatim>\<open>Attempts\<close> of \<open>- 2^63\<close>, the increment of a Go
  \<^verbatim>\<open>int\<close> wrapping around.
\<close>

theorem DequeueWithTimeout_not_as_stated:
  "queues flaky_queue ''default'' = Some [flaky_task]
   \<and> DequeueWithTimeout flaky_queue ''default'' second canceledEnv 100
       = (flaky_queue, Inl (ContextDone ''context canceled''))
   \<and> VisibilityTimeout (opts zerovis_queue) = 0
   \<and> map_option pr_deadline
        (inflight (fst (DequeueWithTimeout zerovis_queue ''default'' second liveEnv 100))
           ''default'' ''t2'')
       = Some (100 + 30 * second)
   \<and> VisibilityTimeout (opts negvis_queue) = - 5 * second
   \<and> map_option pr_deadline
        (inflight (fst (DequeueWithTimeout negvis_queue ''default'' second liveEnv 100))
           ''default'' ''t2'')
       = Some (100 + 30 * second)
   \<and> (100 + 30 * second \<noteq> 100 + VisibilityTimeout (opts zerovis_queue))
   \<and> (100 + 30 * second \<noteq> 100 + VisibilityTimeout (opts negvis_queue))
   \<and> queues maxed_queue ''default'' = Some [flaky_task\<lparr>task_Attempts := 2 ^ 63 - 1\<rparr>]
   \<and> snd (DequeueWithTimeout maxed_queue ''default'' second liveEnv 100)
       = Inr (flaky_task\<lparr>task_Attempts := - (2 ^ 63)\<rparr>)"
proof -
  have a: "queues flaky_queue ''default'' = Some [flaky_task]"
    by (simp add: flaky_queue_eq)
  have b: "VisibilityTimeout (opts zerovis_queue) = 0"
    by (simp add: zerovis_queue_eq)
  have c: "VisibilityTimeout (opts negvis_queue) = - 5 * second"
    by (simp add: negvis_queue_eq)
  have d: "queues maxed_queue ''default'' = Some [flaky_task\<lparr>task_Attempts := 2 ^ 63 - 1\<rparr>]"
    by (simp add: maxed_queue_eq maxed_task_def)
  have e: "100 + 30 * second \<noteq> 100 + VisibilityTimeout (opts zerovis_queue)"
    "100 + 30 * second \<noteq> 100 + VisibilityTimeout (opts negvis_queue)"
    using b c by simp_all
  from a b c d e canceled_dequeue zerovis_dequeue negvis_dequeue maxed_dequeue
  show ?thesis by blast
qed

text \<open>
  C8, amended.  On a queue that is not closed, a call of \<^verbatim>\<open>DequeueWithTimeout\<close> whose \<^verbatim>\<open>select\<close> takes
  the receive from the channel returns the oldest ready task and removes it from the ready
  tasks; with a task ready the \<^verbatim>\<open>select\<close> always takes the receive when the context is live
  and the timer has not fired (or there is no timer, the timeout not being positive).  The
  task returned has its \<^verbatim>\<open>Attempts\<close> incremented as a Go \<^verbatim>\<open>int\<close>, that is by one unless it was
  \<open>2^63 - 1\<close>, and is recorded as inflight under its id with the deadline \<open>now\<close> plus the
  visibility timeout, which is the configured \<^verbatim>\<open>VisibilityTimeout\<close> when that is positive and 30
  seconds otherwise.  Until that deadline has passed no scan of the scanner, in whatever
  order it visits the inflight records, moves the task back to the ready tasks: its
  inflight record stays as it is.  When no task is ready, the call returns no task: with
  the error \<^verbatim>\<open>dequeue timeout\<close> when the timeout is positive, the timer has fired and the context
  is live, and with the context's error when the context is done and the timer has not
  fired.  (The queue named has its inflight map, as every queue made by \<^verbatim>\<open>getOrCreateQueue\<close>
  has.)
\<close>

theorem DequeueWithTimeout_inflight:
  assumes "\<not> closed q"
  shows "(queues q name = Some (t # rest) \<and> pending q name = Some p
            \<and> selectReady True (0 < timeout \<and> env_timer env) (env_ctx env \<noteq> None) (env_pick env)
                = Some SelChannel \<longrightarrow>
            DequeueWithTimeout q name timeout env now
              = (q\<lparr>queues := (queues q)(name \<mapsto> rest),
                   pending := (pending q)(name \<mapsto> p(task_ID t \<mapsto>
                      \<lparr>pr_task = t\<lparr>task_Attempts := wrapInt (task_Attempts t + 1)\<rparr>,
                       pr_deadline = now + effectiveVisibility q\<rparr>))\<rparr>,
                 Inr (t\<lparr>task_Attempts := wrapInt (task_Attempts t + 1)\<rparr>))
            \<and> (\<forall>now' order. now' \<le> now + effectiveVisibility q \<longrightarrow>
                  inflight (scanOnce now' order (fst (DequeueWithTimeout q name timeout env now)))
                      name (task_ID t)
                    = Some \<lparr>pr_task = t\<lparr>task_Attempts := wrapInt (task_Attempts t + 1)\<rparr>,
                            pr_deadline = now + effectiveVisibility q\<rparr>
                  \<and> scanVisit now' (fst (DequeueWithTimeout q name timeout env now))
                        (name, task_ID t)
                      = fst (DequeueWithTimeout q name timeout env now)))
         \<and> (env_ctx env = None \<and> (timeout \<le> 0 \<or> \<not> env_timer env) \<longrightarrow>
            selectReady True (0 < timeout \<and> env_timer env) (env_ctx env \<noteq> None) (env_pick env)
              = Some SelChannel)
         \<and> (- (2 ^ 63) \<le> task_Attempts t \<and> task_Attempts t < 2 ^ 63 - 1 \<longrightarrow>
            wrapInt (task_Attempts t + 1) = task_Attempts t + 1)
         \<and> ((queues q name = None \<or> queues q name = Some []) \<and> 0 < timeout
              \<and> env_timer env \<and> env_ctx env = None \<longrightarrow>
            snd (DequeueWithTimeout q name timeout env now) = Inl DequeueTimeout)
         \<and> ((queues q name = None \<or> queues q name = Some [])
              \<and> (timeout \<le> 0 \<or> \<not> env_timer env) \<and> env_ctx env = Some err \<longrightarrow>
            snd (DequeueWithTimeout q name timeout env now) = Inl (ContextDone err))"
proof -
  let ?t' = "t\<lparr>task_Attempts := wrapInt (task_Attempts t + 1)\<rparr>"
  let ?rec = "\<lparr>pr_task = ?t', pr_deadline = now + effectiveVisibility q\<rparr>"
  let ?q' = "q\<lparr>queues := (queues q)(name \<mapsto> rest),
               pending := (pending q)(name \<mapsto> p(task_ID t \<mapsto> ?rec))\<rparr>"
  let ?sel = "selectReady True (0 < timeout \<and> env_timer env) (env_ctx env \<noteq> None) (env_pick env)
                = Some SelChannel"
  have a: "queues q name = Some (t # rest) \<and> pending q name = Some p \<and> ?sel \<Longrightarrow>
             DequeueWithTimeout q name timeout env now = (?q', Inr ?t')"
    using DequeueWithTimeout_head [OF assms, of name t rest p timeout env now]
    by (simp add: effectiveVisibility_def)
  have i: "inflight ?q' name (task_ID t) = Some ?rec"
    by (simp add: inflight_def)
  have b: "now' \<le> now + effectiveVisibility q \<Longrightarrow>
             inflight (scanOnce now' order ?q') name (task_ID t) = Some ?rec
             \<and> scanVisit now' ?q' (name, task_ID t) = ?q'" for now' order
    using inflight_scanOnce [OF i, of now' order] scanVisit_visible [OF i, of now'] by simp
  have c: "(queues q name = None \<or> queues q name = Some []) \<and> 0 < timeout
              \<and> env_timer env \<and> env_ctx env = None \<Longrightarrow>
             snd (DequeueWithTimeout q name timeout env now) = Inl DequeueTimeout"
    using DequeueWithTimeout_empty_timer [OF assms, of name timeout env now] by blast
  have d: "(queues q name = None \<or> queues q name = Some [])
              \<and> (timeout \<le> 0 \<or> \<not> env_timer env) \<and> env_ctx env = Some err \<Longrightarrow>
             snd (DequeueWithTimeout q name timeout env now) = Inl (ContextDone err)"
    using DequeueWithTimeout_empty_done [OF assms, of name timeout env err now] by blast
  have s: "env_ctx env = None \<and> (timeout \<le> 0 \<or> \<not> env_timer env) \<Longrightarrow> ?sel"
    using selectReady_live [of env timeout] by blast
  have w: "- (2 ^ 63) \<le> task_Attempts t \<and> task_Attempts t < 2 ^ 63 - 1 \<Longrightarrow>
             wrapInt (task_Attempts t + 1) = task_Attempts t + 1"
    by (rule wrapInt_id) simp_all
  show ?thesis
  proof (intro conjI impI allI)
    assume h: "queues q name = Some (t # rest) \<and> pending q name = Some p \<and> ?sel"
    show "DequeueWithTimeout q name timeout env now = (?q', Inr ?t')"
      using a [OF h] .
  next
    fix now' order
    assume h: "queues q name = Some (t # rest) \<and> pending q name = Some p \<and> ?sel"
      and le: "now' \<le> now + effectiveVisibility q"
    show "inflight (scanOnce now' order (fst (DequeueWithTimeout q name timeout env now)))
              name (task_ID t) = Some ?rec"
      using a [OF h] b [OF le, of order] by simp
    show "scanVisit now' (fst (DequeueWithTimeout q name timeout env now)) (name, task_ID t)
              = fst (DequeueWithTimeout q name timeout env now)"
      using a [OF h] b [OF le, of order] by simp
  next
    assume "env_ctx env = None \<and> (timeout \<le> 0 \<or> \<not> env_timer env)"
    then show ?sel using s by blast
  next
    assume "- (2 ^ 63) \<le> task_Attempts t \<and> task_Attempts t < 2 ^ 63 - 1"
    then show "wrapInt (task_Attempts t + 1) = task_Attempts t + 1" using w by blast
  next
    assume "(queues q name = None \<or> queues q name = Some []) \<and> 0 < timeout
              \<and> env_timer env \<and> env_ctx env = None"
    then show "snd (DequeueWithTimeout q name timeout env now) = Inl DequeueTimeout"
      using c by blast
  next
    assume "(queues q name = None \<or> queues q name = Some [])
              \<and> (timeout \<le> 0 \<or> \<not> env_timer env) \<and> env_ctx env = Some err"
    then show "snd (DequeueWithTimeout q name timeout env now) = Inl (ContextDone err)"
      using d by blast
  qed
qed

theorem DequeueWithTimeout_inflight_witness:
  "\<not> closed flaky_queue
   \<and> queues flaky_queue ''default'' = Some (flaky_task # [])
   \<and> pending flaky_queue ''default'' = Some Map.empty
   \<and> env_ctx liveEnv = None \<and> \<not> env_timer liveEnv
   \<and> - (2 ^ 63) \<le> task_Attempts flaky_task \<and> task_Attempts flaky_task < 2 ^ 63 - 1
   \<and> effectiveVisibility flaky_queue = 30 * second
   \<and> snd (DequeueWithTimeout flaky_queue ''default'' second liveEnv 100)
       = Inr (flaky_task\<lparr>task_Attempts := 1\<rparr>)
   \<and> inflight (scanOnce (100 + 30 * second) [(''default'', ''t2'')]
                 (fst (DequeueWithTimeout flaky_queue ''default'' second liveEnv 100)))
        ''default'' ''t2''
       = Some \<lparr>pr_task = flaky_task\<lparr>task_Attempts := 1\<rparr>, pr_deadline = 100 + 30 * second\<rparr>
   \<and> queues flaky_queue ''other'' = None \<and> (0::int) < second
   \<and> env_timer firedEnv \<and> env_ctx firedEnv = None
   \<and> snd (DequeueWithTimeout flaky_queue ''other'' second firedEnv 100) = Inl DequeueTimeout
   \<and> \<not> env_timer canceledEnv \<and> env_ctx canceledEnv = Some ''context canceled''
   \<and> snd (DequeueWithTimeout flaky_queue ''other'' second canceledEnv 100)
       = Inl (ContextDone ''context canceled'')"
proof -
  have h1: "\<not> closed flaky_queue" by (simp add: flaky_queue_eq)
  have h2: "queues flaky_queue ''default'' = Some (flaky_task # [])
            \<and> pending flaky_queue ''default'' = Some Map.empty"
    by (simp add: flaky_queue_eq)
  have h3: "effectiveVisibility flaky_queue = 30 * second"
    by (simp add: flaky_queue_eq effectiveVisibility_def)
  have h4: "queues flaky_queue ''other'' = None" by (simp add: flaky_queue_eq)
  have h5: "env_ctx liveEnv = None \<and> \<not> env_timer liveEnv" by (simp add: liveEnv_fields)
  have h6: "env_timer firedEnv \<and> env_ctx firedEnv = None" by (simp add: firedEnv_def)
  have h7: "\<not> env_timer canceledEnv \<and> env_ctx canceledEnv = Some ''context canceled''"
    by (simp add: canceledEnv_def)
  have h8: "(0::int) < second" by simp
  have v: "task_ID flaky_task = ''t2'' \<and> task_Attempts flaky_task = 0"
    by (simp add: flaky_task_def)
  note t1 = DequeueWithTimeout_inflight [OF h1, of "''default''" flaky_task "[]" Map.empty
      second liveEnv 100]
  note t2 = DequeueWithTimeout_inflight [OF h1, of "''other''" flaky_task "[]" Map.empty
      second firedEnv 100]
  note t3 = DequeueWithTimeout_inflight [OF h1, of "''other''" flaky_task "[]" Map.empty
      second canceledEnv 100 "''context canceled''"]
  have le: "(100::int) + 30 * second \<le> 100 + effectiveVisibility flaky_queue"
    using h3 by simp
  from t1 h5
  have sel: "selectReady True (0 < second \<and> env_timer liveEnv) (env_ctx liveEnv \<noteq> None)
               (env_pick liveEnv) = Some SelChannel"
    by blast
  from t1 v have wr: "wrapInt (task_Attempts flaky_task + 1) = 1"
    by simp
  from t1 h2 sel
  have d: "snd (DequeueWithTimeout flaky_queue ''default'' second liveEnv 100)
             = Inr (flaky_task\<lparr>task_Attempts := wrapInt (task_Attempts flaky_task + 1)\<rparr>)"
    and sc: "\<forall>now' order. now' \<le> 100 + effectiveVisibility flaky_queue \<longrightarrow>
               inflight (scanOnce now' order
                   (fst (DequeueWithTimeout flaky_queue ''default'' second liveEnv 100)))
                   ''default'' (task_ID flaky_task)
                 = Some \<lparr>pr_task = flaky_task\<lparr>task_Attempts :=
                                      wrapInt (task_Attempts flaky_task + 1)\<rparr>,
                         pr_deadline = 100 + effectiveVisibility flaky_queue\<rparr>
               \<and> scanVisit now' (fst (DequeueWithTimeout flaky_queue ''default'' second liveEnv 100))
                     (''default'', task_ID flaky_task)
                   = fst (DequeueWithTimeout flaky_queue ''default'' second liveEnv 100)"
    by auto
  from sc le
  have "inflight (scanOnce (100 + 30 * second) [(''default'', ''t2'')]
                 (fst (DequeueWithTimeout flaky_queue ''default'' second liveEnv 100)))
                 ''default'' (task_ID flaky_task)
          = Some \<lparr>pr_task = flaky_task\<lparr>task_Attempts := wrapInt (task_Attempts flaky_task + 1)\<rparr>,
                  pr_deadline = 100 + effectiveVisibility flaky_queue\<rparr>"
    by blast
  with d v h3 wr
  have a: "snd (DequeueWithTimeout flaky_queue ''default'' second liveEnv 100)
             = Inr (flaky_task\<lparr>task_Attempts := 1\<rparr>)
           \<and> inflight (scanOnce (100 + 30 * second) [(''default'', ''t2'')]
                 (fst (DequeueWithTimeout flaky_queue ''default'' second liveEnv 100)))
               ''default'' ''t2''
             = Some \<lparr>pr_task = flaky_task\<lparr>task_Attempts := 1\<rparr>, pr_deadline = 100 + 30 * second\<rparr>"
    by simp
  from t2 h4 h6 h8
  have b: "snd (DequeueWithTimeout flaky_queue ''other'' second firedEnv 100) = Inl DequeueTimeout"
    by simp
  from t3 h4 h7
  have c: "snd (DequeueWithTimeout flaky_queue ''other'' second canceledEnv 100)
             = Inl (ContextDone ''context canceled'')"
    by simp
  from a b c h1 h2 h3 h4 h5 h6 h7 h8 v show ?thesis by simp
qed

section \<open>Reading a resolved future\<close>

lemma Get_resolved_live:
  "Get (setValue (newFuture i) v) None pickReady valuePtr heap =
     (case valuePtr of
        NilInterface \<Rightarrow> GetReturned None heap
      | PtrInterface None \<Rightarrow> GetPanic ''invalid memory address or nil pointer dereference''
      | PtrInterface (Some a) \<Rightarrow> GetReturned None (heap(a \<mapsto> v))
      | PtrOther ty p \<Rightarrow>
          GetPanic (''interface conversion: interface {} is '' @ ty @ '', not *interface {}''))"
  by (simp add: Get_def setValue_def newFuture_def split: valuePtr.splits option.splits)

text \<open>
  C10, as the claim states it: on a future resolved with a value, \<^verbatim>\<open>Get\<close> with a non-nil pointer
  of another type than \<^verbatim>\<open>*interface{}\<close> panics and never returns.  It fails when the context is
  done as well: both cases of the \<^verbatim>\<open>select\<close> are ready, and when it takes \<^verbatim>\<open>ctx.Done()\<close> the call
  returns the context's error before it looks at \<^verbatim>\<open>valuePtr\<close>, here a \<^verbatim>\<open>*string\<close>.
\<close>

theorem Get_done_context_returns:
  "fut_ready (setValue (newFuture ''act-1'') (VStr ''hi''))
   \<and> fut_err (setValue (newFuture ''act-1'') (VStr ''hi'')) = None
   \<and> Get (setValue (newFuture ''act-1'') (VStr ''hi'')) (Some ''context canceled'') False
         (PtrOther ''*string'' (Some 0)) Map.empty
       = GetReturned (Some ''context canceled'') Map.empty"
  by (simp add: Get_def setValue_def newFuture_def)

text \<open>
  C10, amended.  A future resolved with a value \<open>v\<close> is \<open>setValue (newFuture i) v\<close>.  When the
  wait of \<^verbatim>\<open>Get\<close> ends on the ready channel, which it always does while the context is live and
  does, when the context is done too, whenever the \<^verbatim>\<open>select\<close> takes that case, \<^verbatim>\<open>Get\<close> goes on to the
  assignment: a nil \<^verbatim>\<open>valuePtr\<close> returns nil and writes nothing, a \<^verbatim>\<open>*interface{}\<close> receives the
  value, and a non-nil \<^verbatim>\<open>valuePtr\<close> of any other type, pointing anywhere or nil, meets the
  unchecked assertion \<^verbatim>\<open>valuePtr.(*interface{})\<close> and panics instead of returning an error.  On
  that path \<^verbatim>\<open>Get\<close> returns exactly when \<^verbatim>\<open>valuePtr\<close> is nil or a non-nil pointer of type
  \<^verbatim>\<open>*interface{}\<close>, so only for the nil interface and for \<^verbatim>\<open>*interface{}\<close>.
\<close>

theorem Get_unchecked_type_assertion:
  "Get (setValue (newFuture i) v) None pickReady valuePtr heap =
     (case valuePtr of
        NilInterface \<Rightarrow> GetReturned None heap
      | PtrInterface None \<Rightarrow> GetPanic ''invalid memory address or nil pointer dereference''
      | PtrInterface (Some a) \<Rightarrow> GetReturned None (heap(a \<mapsto> v))
      | PtrOther ty p \<Rightarrow>
          GetPanic (''interface conversion: interface {} is '' @ ty @ '', not *interface {}''))
   \<and> Get (setValue (newFuture i) v) ctxErr True (PtrOther ty p) heap
       = GetPanic (''interface conversion: interface {} is '' @ ty @ '', not *interface {}'')
   \<and> ((\<exists>err heap'. Get (setValue (newFuture i) v) None pickReady valuePtr heap
                       = GetReturned err heap')
        = (valuePtr = NilInterface \<or> (\<exists>a. valuePtr = PtrInterface (Some a))))"
proof -
  have b: "Get (setValue (newFuture i) v) ctxErr True (PtrOther ty p) heap
       = GetPanic (''interface conversion: interface {} is '' @ ty @ '', not *interface {}'')"
    by (simp add: Get_def setValue_def newFuture_def)
  have c: "(\<exists>err heap'. Get (setValue (newFuture i) v) None pickReady valuePtr heap
                       = GetReturned err heap')
        = (valuePtr = NilInterface \<or> (\<exists>a. valuePtr = PtrInterface (Some a)))"
    unfolding Get_resolved_live
    by (cases valuePtr) (auto split: option.splits)
  from Get_resolved_live [of i v pickReady valuePtr heap] b c show ?thesis by blast
qed

section \<open>The SSE stream\<close>

lemma hd_filter_Min:
  fixes f :: "'a \<Rightarrow> int"
  assumes "sorted (map f xs)" "filter (\<lambda>x. c < f x) xs \<noteq> []"
  shows "f (hd (filter (\<lambda>x. c < f x) xs)) = Min {k \<in> set (map f xs). c < k}"
  using assms
proof (induction xs)
  case Nil
  then show ?case by simp
next
  case (Cons x xs)
  show ?case
  proof (cases "c < f x")
    case True
    have "Min {k \<in> set (map f (x # xs)). c < k} = f x"
    proof (rule Min_eqI)
      show "finite {k \<in> set (map f (x # xs)). c < k}" by simp
      show "f x \<in> {k \<in> set (map f (x # xs)). c < k}" using True by simp
      fix y assume "y \<in> {k \<in> set (map f (x # xs)). c < k}"
      then show "f x \<le> y" using Cons.prems(1) by auto
    qed
    with True show ?thesis by simp
  next
    case False
    then have "{k \<in> set (map f (x # xs)). c < k} = {k \<in> set (map f xs). c < k}" by auto
    with False Cons show ?thesis by simp
  qed
qed

lemma seq_ok_sorted: "seq_ok es \<Longrightarrow> sorted (map ev_SequenceNum es)"
  by (simp add: seq_ok_def)

lemma firstEventID_writeEvents:
  "firstEventID (fst (writeEvents since evs) @ fs)
     = (case evs of [] \<Rightarrow> firstEventID fs | ev # rest \<Rightarrow> Some (ev_SequenceNum ev))"
  by (cases evs) (simp_all add: Let_def split: prod.splits)

lemma streamLoop_quiet:
  "list_all (quiet since) pre \<Longrightarrow>
   firstEventID (fst (streamLoop since (pre @ cs))) = firstEventID (fst (streamLoop since cs))"
proof (induction pre)
  case Nil
  then show ?case by simp
next
  case (Cons c pre)
  then show ?case
    by (cases c) (simp_all add: split_beta)
qed

lemma streamLoop_Tick_first:
  assumes "getSince since = Inr (ev # rest)"
  shows "firstEventID (fst (streamLoop since (Tick getSince # cs))) = Some (ev_SequenceNum ev)"
proof -
  obtain frames since1 d where w: "writeEvents since (ev # rest) = (frames, since1, d)"
    by (cases "writeEvents since (ev # rest)") auto
  have f: "firstEventID (frames @ fs) = Some (ev_SequenceNum ev)" for fs
    using firstEventID_writeEvents [of since "ev # rest" fs] w by simp
  show ?thesis
    using assms w f [of "[]"] f by (simp add: split_beta)
qed

lemma hasTerminalFrame_append:
  "hasTerminalFrame (fs @ gs) = (hasTerminalFrame fs \<or> hasTerminalFrame gs)"
  by (induction fs rule: hasTerminalFrame.induct) auto

lemma doneAfterTerminal_append:
  "\<not> hasTerminalFrame fs \<Longrightarrow> doneAfterTerminal (fs @ gs) = doneAfterTerminal gs"
  by (induction fs rule: hasTerminalFrame.induct) auto

lemma writeEvents_terminal:
  "writeEvents since evs = (frames, since1, fin) \<Longrightarrow>
   doneAfterTerminal frames \<and> hasTerminalFrame frames = fin"
proof (induction evs arbitrary: since frames since1 fin)
  case Nil
  then show ?case by auto
next
  case (Cons ev evs)
  show ?case
  proof (cases "isTerminalEvent (ev_Type ev)")
    case True
    with Cons.prems show ?thesis by (auto simp: Let_def)
  next
    case False
    obtain fs s2 d where r: "writeEvents (if ev_SequenceNum ev > since then ev_SequenceNum ev else since) evs
        = (fs, s2, d)"
      by (cases "writeEvents (if ev_SequenceNum ev > since then ev_SequenceNum ev else since) evs") auto
    from Cons.IH [OF r] have "doneAfterTerminal fs \<and> hasTerminalFrame fs = d" .
    with False r Cons.prems show ?thesis by (auto simp: Let_def)
  qed
qed

lemma streamLoop_terminal:
  "doneAfterTerminal (fst (streamLoop since cs))
   \<and> (hasTerminalFrame (fst (streamLoop since cs)) \<longrightarrow> snd (streamLoop since cs) = Returned None)"
proof (induction since cs rule: streamLoop.induct)
  case (1 since)
  then show ?case by simp
next
  case (2 since cs)
  then show ?case by simp
next
  case (3 since cs)
  then show ?case by (simp add: split_beta)
next
  case (4 since getSince cs)
  show ?case
  proof (cases "getSince since")
    case (Inl err)
    then show ?thesis by simp
  next
    case (Inr evs)
    obtain frames since1 d where w: "writeEvents since evs = (frames, since1, d)"
      by (cases "writeEvents since evs") auto
    note t = writeEvents_terminal [OF w]
    show ?thesis
    proof (cases d)
      case True
      with Inr w t show ?thesis by simp
    next
      case False
      from 4 [OF Inr w [symmetric] refl False]
      have ih: "doneAfterTerminal (fst (streamLoop since1 cs))
         \<and> (hasTerminalFrame (fst (streamLoop since1 cs)) \<longrightarrow> snd (streamLoop since1 cs) = Returned None)"
        by simp
      from False t have nt: "\<not> hasTerminalFrame frames" by simp
      show ?thesis
        using Inr w False ih nt
        by (simp add: hasTerminalFrame_append doneAfterTerminal_append split_beta)
    qed
  qed
qed

lemma sse_store_events:
  "GetEvents sse_store ''wf-1'' =
     [(NewEvent 1 ''wf-1'' EventWorkflowStarted [])\<lparr>ev_SequenceNum := 1\<rparr>,
      (NewEvent 2 ''wf-1'' EventActivityScheduled [])\<lparr>ev_SequenceNum := 2\<rparr>,
      (NewEvent 3 ''wf-1'' EventWorkflowCompleted [])\<lparr>ev_SequenceNum := 3\<rparr>]"
  by (simp add: sse_store_def run_ops_def AppendEvent_def NewEvent_def NewInMemoryStore_def
      GetEvents_def Let_def)

lemma GetEventsSince_GetEvents:
  "GetEventsSince s wid since = filter (\<lambda>event. since < ev_SequenceNum event) (GetEvents s wid)"
  by (simp add: GetEventsSince_def GetEvents_def split: option.splits)

lemma parseSince_1: "parseSince ''1'' = 1"
  by (simp add: parseSince_def ParseInt_def isDigit_def digitsValue_def Let_def)

text \<open>
  C9.  Resume: let the stream be at resume point \<open>since\<close> (for \<^verbatim>\<open>StreamEvents\<close>, the parsed
  \<^verbatim>\<open>Last-Event-ID\<close>, or 0) and let it see heartbeats and ticks without newer events, and then a
  tick at which the store, in any state its calls can bring it to, holds an event of the
  workflow with a sequence number above \<open>since\<close>.  Then the id of the first event frame
  written is the smallest sequence number above \<open>since\<close> among the stored events of the
  workflow.  Terminal: in whatever the stream writes, for any getter and any sequence of
  select cases, a terminal workflow event frame is followed by the done frame
  (\<^verbatim>\<open>event: done\<close>, data \<^verbatim>\<open>{}\<close>) and by nothing more, and the stream has then returned nil.
\<close>

theorem StreamEvents_resume_and_done:
  assumes "list_all (quiet since) pre"
    and "GetEventsSince (run_ops NewInMemoryStore ops) wid since \<noteq> []"
  shows "firstEventID (fst (streamLoop since
            (pre @ Tick (storeGetter (run_ops NewInMemoryStore ops) wid) # cs)))
           = Some (Min {k \<in> set (map ev_SequenceNum (GetEvents (run_ops NewInMemoryStore ops) wid)).
                         since < k})
         \<and> StreamEvents True lastEventID cs' = streamLoop (parseSince lastEventID) cs'
         \<and> doneAfterTerminal (fst (streamLoop since' cs'))
         \<and> (hasTerminalFrame (fst (streamLoop since' cs')) \<longrightarrow>
              snd (streamLoop since' cs') = Returned None)"
proof -
  let ?s = "run_ops NewInMemoryStore ops"
  let ?new = "filter (\<lambda>event. since < ev_SequenceNum event) (GetEvents ?s wid)"
  from assms(2) have ne: "?new \<noteq> []" by (simp add: GetEventsSince_GetEvents)
  then obtain ev rest where new: "?new = ev # rest" by (cases ?new) auto
  have g: "storeGetter ?s wid since = Inr (ev # rest)"
    using new by (simp add: storeGetter_def GetEventsSince_GetEvents)
  have "firstEventID (fst (streamLoop since (pre @ Tick (storeGetter ?s wid) # cs)))
          = Some (ev_SequenceNum ev)"
    using streamLoop_quiet [OF assms(1)]
      streamLoop_Tick_first [where getSince = "storeGetter ?s wid" and since = since, OF g]
    by simp
  moreover have "ev_SequenceNum ev = Min {k \<in> set (map ev_SequenceNum (GetEvents ?s wid)). since < k}"
    using hd_filter_Min [OF seq_ok_sorted [OF seq_ok_run_ops [of ops wid]] ne] new by simp
  ultimately have a: "firstEventID (fst (streamLoop since (pre @ Tick (storeGetter ?s wid) # cs)))
          = Some (Min {k \<in> set (map ev_SequenceNum (GetEvents ?s wid)). since < k})"
    by simp
  have b: "StreamEvents True lastEventID cs' = streamLoop (parseSince lastEventID) cs'"
    by (simp add: StreamEvents_def)
  from a b streamLoop_terminal [of since' cs'] show ?thesis by blast
qed

theorem StreamEvents_resume_and_done_witness:
  "list_all (quiet (parseSince ''1'')) [Heartbeat]
   \<and> GetEventsSince sse_store ''wf-1'' (parseSince ''1'') \<noteq> []
   \<and> Min {k \<in> set (map ev_SequenceNum (GetEvents sse_store ''wf-1'')). parseSince ''1'' < k} = 2
   \<and> fst (StreamEvents True ''1'' sse_cases)
       = [PingFrame,
          EventFrame 2 EventActivityScheduled
            ((NewEvent 2 ''wf-1'' EventActivityScheduled [])\<lparr>ev_SequenceNum := 2\<rparr>),
          EventFrame 3 EventWorkflowCompleted
            ((NewEvent 3 ''wf-1'' EventWorkflowCompleted [])\<lparr>ev_SequenceNum := 3\<rparr>),
          DoneFrame]
   \<and> hasTerminalFrame (fst (StreamEvents True ''1'' sse_cases))
   \<and> snd (StreamEvents True ''1'' sse_cases) = Returned None"
proof -
  have h1: "list_all (quiet (parseSince ''1'')) [Heartbeat]" by simp
  have h2: "GetEventsSince sse_store ''wf-1'' (parseSince ''1'') \<noteq> []"
    by (simp add: GetEventsSince_GetEvents sse_store_events parseSince_1)
  have fr: "fst (streamLoop 1 sse_cases)
       = [PingFrame,
          EventFrame 2 EventActivityScheduled
            ((NewEvent 2 ''wf-1'' EventActivityScheduled [])\<lparr>ev_SequenceNum := 2\<rparr>),
          EventFrame 3 EventWorkflowCompleted
            ((NewEvent 3 ''wf-1'' EventWorkflowCompleted [])\<lparr>ev_SequenceNum := 3\<rparr>),
          DoneFrame]"
    by (simp add: sse_cases_def storeGetter_def GetEventsSince_GetEvents sse_store_events
        NewEvent_def isTerminalEvent_def Let_def)
  have c: "sse_cases = [Heartbeat] @ Tick (storeGetter sse_store ''wf-1'') # [Heartbeat]"
    by (simp add: sse_cases_def)
  note t = StreamEvents_resume_and_done [OF h1 h2 [unfolded sse_store_def],
      folded sse_store_def, of "[Heartbeat]" "''1''" sse_cases "parseSince ''1''"]
  have lhs: "firstEventID (fst (streamLoop (parseSince ''1'')
                ([Heartbeat] @ Tick (storeGetter sse_store ''wf-1'') # [Heartbeat]))) = Some 2"
    unfolding c [symmetric] parseSince_1 fr by simp
  from t [THEN conjunct1] lhs
  have m: "Min {k \<in> set (map ev_SequenceNum (GetEvents sse_store ''wf-1'')).
                        parseSince ''1'' < k} = 2"
    by simp
  have se: "StreamEvents True ''1'' sse_cases = streamLoop 1 sse_cases"
    using t [THEN conjunct2, THEN conjunct1] by (simp add: parseSince_1)
  have ht: "hasTerminalFrame (fst (streamLoop 1 sse_cases))"
    unfolding fr by (simp add: isTerminalEvent_def)
  have r: "snd (streamLoop 1 sse_cases) = Returned None"
    using t [THEN conjunct2, THEN conjunct2, THEN conjunct2] ht
    unfolding parseSince_1 by blast
  show ?thesis
    unfolding se using h1 h2 m fr ht r by blast
qed

end
